theory Spec2Isabelle
  imports Main "HOL-Library.Word" "HOL-Library.Sublist" "HOL-Library.Multiset"
begin

unbundle bit_operations_syntax

section \<open>Go's \<open>net/netip\<close> addresses\<close>

text \<open>
  The routing package works on \<open>netip.Addr\<close> values of the Go standard library.
  An \<open>Addr\<close> is a 128-bit number together with a zone marker \<open>z\<close>: \<open>z0\<close> for the
  zero (invalid) address, \<open>z4\<close> for an IPv4 address, \<open>z6noz\<close> for an IPv6 address
  without zone, and an interned zone name for an IPv6 address with a zone.  An IPv4
  address is stored in the low 32 bits under the prefix \<open>0xffff\<close>, that is with the
  same 128 bits as its IPv4-mapped IPv6 form; the two differ in \<open>z\<close> only.
\<close>

record uint128 =
  hi :: "64 word"
  lo :: "64 word"

datatype zone = z0 | z4 | z6noz | z6zone string

record Addr =
  addr :: uint128
  z :: zone

text \<open>The zero value of \<open>netip.Addr\<close>, what an unassigned Go variable of the type holds.\<close>

definition zero_Addr :: Addr where
  "zero_Addr = \<lparr>addr = \<lparr>hi = 0, lo = 0\<rparr>, z = z0\<rparr>"

text \<open>
  \<^verbatim>\<open>
  func AddrFrom4(addr [4]byte) Addr {
      return Addr{
          addr: uint128{0, 0xffff00000000 | uint64(addr[0])<<24 | uint64(addr[1])<<16 |
                           uint64(addr[2])<<8 | uint64(addr[3])},
          z:    z4,
      }
  }
  func AddrFrom16(addr [16]byte) Addr {
      return Addr{
          addr: uint128{beUint64(addr[:8]), beUint64(addr[8:])},
          z:    z6noz,
      }
  }
  \<close>
\<close>

definition AddrFrom4 :: "8 word \<Rightarrow> 8 word \<Rightarrow> 8 word \<Rightarrow> 8 word \<Rightarrow> Addr" where
  "AddrFrom4 a0 a1 a2 a3 =
     \<lparr>addr = \<lparr>hi = 0,
              lo = 0xffff00000000 OR push_bit 24 (ucast a0) OR push_bit 16 (ucast a1)
                     OR push_bit 8 (ucast a2) OR ucast a3\<rparr>,
      z = z4\<rparr>"

fun beUint64 :: "8 word list \<Rightarrow> 64 word" where
  "beUint64 [b0, b1, b2, b3, b4, b5, b6, b7] =
     (ucast b7 OR push_bit 8 (ucast b6) OR push_bit 16 (ucast b5) OR push_bit 24 (ucast b4)
        OR push_bit 32 (ucast b3) OR push_bit 40 (ucast b2) OR push_bit 48 (ucast b1)
        OR push_bit 56 (ucast b0))"
| "beUint64 _ = 0"

definition AddrFrom16 :: "8 word list \<Rightarrow> Addr" where
  "AddrFrom16 bs = \<lparr>addr = \<lparr>hi = beUint64 (take 8 bs), lo = beUint64 (drop 8 bs)\<rparr>, z = z6noz\<rparr>"

text \<open>
  \<^verbatim>\<open>
  func (ip Addr) Is4() bool { return ip.z == z4 }
  func (ip Addr) Is6() bool { return ip.z != z0 && ip.z != z4 }
  func (ip Addr) Is4In6() bool {
      return ip.Is6() && ip.addr.hi == 0 && ip.addr.lo>>32 == 0xffff
  }
  func (ip Addr) Unmap() Addr {
      if ip.Is4In6() { ip.z = z4 }
      return ip
  }
  \<close>
  \<open>Is6\<close> holds of every IPv6 address, the IPv4-mapped ones included.
\<close>

definition Is4 :: "Addr \<Rightarrow> bool" where
  "Is4 ip \<longleftrightarrow> z ip = z4"

definition Is6 :: "Addr \<Rightarrow> bool" where
  "Is6 ip \<longleftrightarrow> z ip \<noteq> z0 \<and> z ip \<noteq> z4"

definition Is4In6 :: "Addr \<Rightarrow> bool" where
  "Is4In6 ip \<longleftrightarrow> Is6 ip \<and> hi (addr ip) = 0 \<and> drop_bit 32 (lo (addr ip)) = 0xffff"

definition Unmap :: "Addr \<Rightarrow> Addr" where
  "Unmap ip = (if Is4In6 ip then ip\<lparr>z := z4\<rparr> else ip)"

text \<open>
  Byte and 16-bit accessors, \<open>i\<close> counted from the most significant end:
  \<^verbatim>\<open>
  func (ip Addr) v4(i uint8) uint8 { return uint8(ip.addr.lo >> ((3 - i) * 8)) }
  func (ip Addr) v6(i uint8) uint8 {
      return uint8(*(ip.addr.halves()[(i/8)%2]) >> ((7 - i%8) * 8))
  }
  func (ip Addr) v6u16(i uint8) uint16 {
      return uint16(*(ip.addr.halves()[(i/4)%2]) >> ((3 - i%4) * 16))
  }
  \<close>
  \<open>halves\<close> is the pair of pointers to \<open>hi\<close> and \<open>lo\<close>.
\<close>

definition halves :: "uint128 \<Rightarrow> nat \<Rightarrow> 64 word" where
  "halves u k = (if k = 0 then hi u else lo u)"

definition v4 :: "Addr \<Rightarrow> nat \<Rightarrow> 8 word" where
  "v4 ip i = ucast (drop_bit ((3 - i) * 8) (lo (addr ip)))"

definition v6 :: "Addr \<Rightarrow> nat \<Rightarrow> 8 word" where
  "v6 ip i = ucast (drop_bit ((7 - i mod 8) * 8) (halves (addr ip) ((i div 8) mod 2)))"

definition v6u16 :: "Addr \<Rightarrow> nat \<Rightarrow> 16 word" where
  "v6u16 ip i = ucast (drop_bit ((3 - i mod 4) * 16) (halves (addr ip) ((i div 4) mod 2)))"

text \<open>
  The four classification predicates that \<open>IPIsPrivate\<close> calls.  Each looks at an
  IPv4-mapped IPv6 address through its unmapped form, then tests the IPv4 ranges
  (RFC 1918, 127/8, 169.254/16, 224.0.0/24) or the IPv6 ranges (\<open>fc00::/7\<close>, \<open>::1\<close>,
  \<open>fe80::/10\<close>, \<open>ff02::/16\<close> and its flagged variants); the zero address is in no
  class.  The other three predicates have the shape of \<open>IsPrivate\<close>, each with its own
  ranges.
  \<^verbatim>\<open>
  func (ip Addr) IsPrivate() bool {
      if ip.Is4In6() { ip = ip.Unmap() }
      if ip.Is4() {
          return ip.v4(0) == 10 ||
              (ip.v4(0) == 172 && ip.v4(1)&0xf0 == 16) ||
              (ip.v4(0) == 192 && ip.v4(1) == 168)
      }
      if ip.Is6() { return ip.v6(0)&0xfe == 0xfc }
      return false // zero value
  }
  \<close>
\<close>

definition IsPrivate :: "Addr \<Rightarrow> bool" where
  "IsPrivate ip0 =
     (let ip = (if Is4In6 ip0 then Unmap ip0 else ip0) in
      if Is4 ip then
        v4 ip 0 = 10 \<or> (v4 ip 0 = 172 \<and> v4 ip 1 AND 0xf0 = 16) \<or> (v4 ip 0 = 192 \<and> v4 ip 1 = 168)
      else if Is6 ip then v6 ip 0 AND 0xfe = 0xfc
      else False)"

definition IsLoopback :: "Addr \<Rightarrow> bool" where
  "IsLoopback ip0 =
     (let ip = (if Is4In6 ip0 then Unmap ip0 else ip0) in
      if Is4 ip then v4 ip 0 = 127
      else if Is6 ip then hi (addr ip) = 0 \<and> lo (addr ip) = 1
      else False)"

definition IsLinkLocalUnicast :: "Addr \<Rightarrow> bool" where
  "IsLinkLocalUnicast ip0 =
     (let ip = (if Is4In6 ip0 then Unmap ip0 else ip0) in
      if Is4 ip then v4 ip 0 = 169 \<and> v4 ip 1 = 254
      else if Is6 ip then v6u16 ip 0 AND 0xffc0 = 0xfe80
      else False)"

definition IsLinkLocalMulticast :: "Addr \<Rightarrow> bool" where
  "IsLinkLocalMulticast ip0 =
     (let ip = (if Is4In6 ip0 then Unmap ip0 else ip0) in
      if Is4 ip then v4 ip 0 = 224 \<and> v4 ip 1 = 0 \<and> v4 ip 2 = 0
      else if Is6 ip then v6u16 ip 0 AND 0xff0f = 0xff02
      else False)"

section \<open>Package \<open>routing\<close>: address predicates\<close>

text \<open>
  \<^verbatim>\<open>
  func IPIsPrivate(ip netip.Addr) bool {
      return ip.IsPrivate() || ip.IsLoopback() ||
          ip.IsLinkLocalUnicast() || ip.IsLinkLocalMulticast()
  }
  \<close>
\<close>

definition IPIsPrivate :: "Addr \<Rightarrow> bool" where
  "IPIsPrivate ip \<longleftrightarrow>
     IsPrivate ip \<or> IsLoopback ip \<or> IsLinkLocalUnicast ip \<or> IsLinkLocalMulticast ip"

text \<open>
  Modelled from the spec: the constants \<open>netlink.FAMILY_V4\<close> and \<open>netlink.FAMILY_V6\<close>
  are declared in a package that is not among the sources at hand.  The spec's address
  family is the two-valued enumeration V4, V6; the constants are two distinct values of
  the Go type \<open>int\<close> (on Linux \<open>AF_INET\<close> and \<open>AF_INET6\<close>), which the code only
  ever compares for equality.
\<close>

definition FAMILY_V4 :: int where
  "FAMILY_V4 = 2"

definition FAMILY_V6 :: int where
  "FAMILY_V6 = 10"

text \<open>
  \<^verbatim>\<open>
  func ipMatchesFamily(ip netip.Addr, family int) bool {
      return (family == netlink.FAMILY_V6 && ip.Is6()) ||
          (family == netlink.FAMILY_V4 && (ip.Is4() || ip.Is4In6()))
  }
  \<close>
\<close>

definition ipMatchesFamily :: "Addr \<Rightarrow> int \<Rightarrow> bool" where
  "ipMatchesFamily ip family \<longleftrightarrow>
     (family = FAMILY_V6 \<and> Is6 ip) \<or> (family = FAMILY_V4 \<and> (Is4 ip \<or> Is4In6 ip))"

text \<open>
  The predicate of the spec, written from its words and not from the code, to compare
  \<open>ipMatchesFamily\<close> with: \<open>MatchesFamily(addr, family)\<close> is true iff the family is V6
  and the address is a genuine V6 address, or the family is V4 and the address is V4,
  including V4 expressed in V4-mapped-V6 form.  A genuine V6 address is an IPv6 address
  that is not the IPv4-mapped form of a V4 address.
\<close>

definition spec_MatchesFamily :: "Addr \<Rightarrow> int \<Rightarrow> bool" where
  "spec_MatchesFamily ip family \<longleftrightarrow>
     (family = FAMILY_V6 \<and> Is6 ip \<and> \<not> Is4In6 ip) \<or> (family = FAMILY_V4 \<and> (Is4 ip \<or> Is4In6 ip))"

section \<open>Go errors\<close>

text \<open>
  An error is a sentinel made by \<open>errors.New\<close>, an error handed back by the operating
  system through package \<open>net\<close>, or the result of \<open>fmt.Errorf\<close>, kept as its format
  string with its operands.  The message of the last is the format with each verb
  replaced by its operand; the operand of the verb \<open>%w\<close> is the error it wraps.  A
  sentinel and an error of the system are told apart from other errors of their kind by
  their text.
\<close>

datatype error =
    errors_New string
  | net_error string
  | fmt_Errorf string "arg list"
and arg =
    ArgError error
  | ArgString string
  | ArgInt int
  | ArgUint16 "16 word"
  | ArgPointer "nat option"
  | ArgRegexp string

text \<open>The verbs of a format string in order; \<open>%%\<close> is a literal percent sign.\<close>

fun verbs :: "string \<Rightarrow> char list" where
  "verbs [] = []"
| "verbs [c] = []"
| "verbs (c # d # cs) =
     (if c = CHR ''%'' then (if d = CHR ''%'' then verbs cs else d # verbs cs)
      else verbs (d # cs))"

text \<open>\<open>Unwrap\<close> of a \<open>fmt.Errorf\<close> error is the operand at the position of \<open>%w\<close>.\<close>

fun wrapped :: "char list \<Rightarrow> arg list \<Rightarrow> error option" where
  "wrapped (v # vs) (a # rest) =
     (if v = CHR ''w'' then (case a of ArgError e \<Rightarrow> Some e | _ \<Rightarrow> None) else wrapped vs rest)"
| "wrapped _ _ = None"

fun Unwrap :: "error \<Rightarrow> error option" where
  "Unwrap (fmt_Errorf format args) = wrapped (verbs format) args"
| "Unwrap _ = None"

text \<open>
  \<open>errors.Is\<close> follows the chain of wrapped errors until it finds the target.  The
  chain ends, since a wrapped error is a part of the error that wraps it.
\<close>

lemma wrapped_smaller: "wrapped vs args = Some e \<Longrightarrow> size e < size_list size args"
  by (induction vs args rule: wrapped.induct) (auto split: if_splits arg.splits)

lemma Unwrap_smaller: "Unwrap err = Some e \<Longrightarrow> size e < size err"
  by (cases err) (auto dest: wrapped_smaller)

function errors_Is :: "error \<Rightarrow> error \<Rightarrow> bool" where
  "errors_Is err target =
     (err = target \<or> (case Unwrap err of None \<Rightarrow> False | Some e \<Rightarrow> errors_Is e target))"
  by pat_completeness auto
termination
  by (relation "measure (\<lambda>(err, target). size err)") (auto dest: Unwrap_smaller)

declare errors_Is.simps [simp del]

section \<open>Package \<open>routing\<close>: the address assigned to an interface\<close>

text \<open>
  What \<open>assignedIP\<close> reads from the host: \<open>net.InterfaceByName\<close> and the method
  \<open>Addrs\<close> of the interface found, each giving a value or the text of the error of
  package \<open>net\<close>.  An element of
  the address list is a \<open>*net.IPAddr\<close> (an IP and a zone), a \<open>*net.IPNet\<close> (an IP and
  a mask) or some other implementation of the interface \<open>net.Addr\<close>.  A \<open>net.IP\<close>
  is a slice of bytes.
\<close>

type_synonym IP = "8 word list"

datatype net_Addr = IPAddr IP string | IPNet IP "8 word list" | other_Addr string

record 'iface host =
  InterfaceByName :: "string \<Rightarrow> string + 'iface"
  Addrs :: "'iface \<Rightarrow> string + net_Addr list"

definition errInterfaceIPNotFound :: error where
  "errInterfaceIPNotFound = errors_New ''IP address not found for interface''"

text \<open>
  The loop over the addresses.  The variable \<open>ip\<close> is the named result of the function
  and is assigned in every round; the loop either returns from the function with a
  matching address (\<open>True\<close>) or runs to its end (\<open>False\<close>), leaving in \<open>ip\<close> what the
  last round assigned.  The conversion \<open>netIPToNetipAddress\<close> is defined in a file of
  the package that is not among the sources at hand, so it is a parameter here.
  \<^verbatim>\<open>
  for _, address := range addresses {
      switch value := address.(type) {
      case *net.IPAddr:
          ip = netIPToNetipAddress(value.IP)
      case *net.IPNet:
          ip = netIPToNetipAddress(value.IP)
      default:
          continue
      }
      if !ipMatchesFamily(ip, family) {
          continue
      }
      return ip.Unmap(), nil
  }
  \<close>
\<close>

fun assignedIP_range :: "(IP \<Rightarrow> Addr) \<Rightarrow> int \<Rightarrow> Addr \<Rightarrow> net_Addr list \<Rightarrow> Addr \<times> bool" where
  "assignedIP_range netIPToNetipAddress family ip [] = (ip, False)"
| "assignedIP_range netIPToNetipAddress family ip (IPAddr value_IP zone # addresses) =
     (let ip = netIPToNetipAddress value_IP in
      if \<not> ipMatchesFamily ip family
      then assignedIP_range netIPToNetipAddress family ip addresses
      else (Unmap ip, True))"
| "assignedIP_range netIPToNetipAddress family ip (IPNet value_IP value_Mask # addresses) =
     (let ip = netIPToNetipAddress value_IP in
      if \<not> ipMatchesFamily ip family
      then assignedIP_range netIPToNetipAddress family ip addresses
      else (Unmap ip, True))"
| "assignedIP_range netIPToNetipAddress family ip (other_Addr a # addresses) =
     assignedIP_range netIPToNetipAddress family ip addresses"

text \<open>
  \<^verbatim>\<open>
  func (r *Routing) assignedIP(interfaceName string, family int) (ip netip.Addr, err error) {
      iface, err := net.InterfaceByName(interfaceName)
      if err != nil {
          return ip, fmt.Errorf("network interface %s not found: %w", interfaceName, err)
      }
      addresses, err := iface.Addrs()
      if err != nil {
          return ip, fmt.Errorf("listing interface %s addresses: %w", interfaceName, err)
      }
      for ... { ... }
      return ip, fmt.Errorf("%w: interface %s in %d addresses",
          errInterfaceIPNotFound, interfaceName, len(addresses))
  }
  \<close>
  The result is the pair of Go: the address and the error, \<open>None\<close> for \<open>nil\<close>.
\<close>

definition assignedIP ::
  "'iface host \<Rightarrow> (IP \<Rightarrow> Addr) \<Rightarrow> string \<Rightarrow> int \<Rightarrow> Addr \<times> error option" where
  "assignedIP h netIPToNetipAddress interfaceName family =
     (case InterfaceByName h interfaceName of
        Inl err \<Rightarrow>
          (zero_Addr,
           Some (fmt_Errorf ''network interface %s not found: %w''
                   [ArgString interfaceName, ArgError (net_error err)]))
      | Inr iface \<Rightarrow>
          (case Addrs h iface of
             Inl err \<Rightarrow>
               (zero_Addr,
                Some (fmt_Errorf ''listing interface %s addresses: %w''
                        [ArgString interfaceName, ArgError (net_error err)]))
           | Inr addresses \<Rightarrow>
               (case assignedIP_range netIPToNetipAddress family zero_Addr addresses of
                  (ip, True) \<Rightarrow> (ip, None)
                | (ip, False) \<Rightarrow>
                    (ip,
                     Some (fmt_Errorf ''%w: interface %s in %d addresses''
                             [ArgError errInterfaceIPNotFound, ArgString interfaceName,
                              ArgInt (int (length addresses))])))))"

text \<open>
  The IPs of the entries that the type switch lets through, in enumeration order, and
  the same after conversion: the addresses that the loop tests against the family.
\<close>

fun addr_IPs :: "net_Addr list \<Rightarrow> IP list" where
  "addr_IPs [] = []"
| "addr_IPs (IPAddr v zn # rest) = v # addr_IPs rest"
| "addr_IPs (IPNet v msk # rest) = v # addr_IPs rest"
| "addr_IPs (other_Addr a # rest) = addr_IPs rest"

definition enumerated :: "(IP \<Rightarrow> Addr) \<Rightarrow> net_Addr list \<Rightarrow> Addr list" where
  "enumerated netIPToNetipAddress addresses = map netIPToNetipAddress (addr_IPs addresses)"


subsection \<open>A host for the examples\<close>

text \<open>
  \<open>netip.AddrFromSlice\<close> of the standard library, the usual way from a \<open>net.IP\<close> to a
  \<open>netip.Addr\<close>: a slice of 4 bytes gives an IPv4 address, one of 16 bytes an IPv6
  address (IPv4-mapped when the bytes are), any other length fails.  The examples
  use it as the conversion, with the zero address where it fails.
\<close>

definition AddrFromSlice :: "IP \<Rightarrow> Addr option" where
  "AddrFromSlice bs =
     (case bs of
        [a0, a1, a2, a3] \<Rightarrow> Some (AddrFrom4 a0 a1 a2 a3)
      | _ \<Rightarrow> if length bs = 16 then Some (AddrFrom16 bs) else None)"

definition example_conversion :: "IP \<Rightarrow> Addr" where
  "example_conversion v = (case AddrFromSlice v of Some a \<Rightarrow> a | None \<Rightarrow> zero_Addr)"

text \<open>
  A host with three interfaces: \<open>tun0\<close> has a link-local IPv6 address, then the
  address 10.8.0.2 in its 16-byte form, then 10.8.0.3 in its 4-byte form; the
  addresses of \<open>eth0\<close> cannot be listed; \<open>wg0\<close> has a link-local IPv6 address only.
\<close>

definition example_host :: "nat host" where
  "example_host =
     \<lparr>InterfaceByName =
        (\<lambda>n. if n = ''tun0'' then Inr 0 else if n = ''eth0'' then Inr 1
              else if n = ''wg0'' then Inr 2 else Inl ''no such network interface''),
      Addrs =
        (\<lambda>i. if i = 0 then
                Inr [other_Addr ''unix'',
                     IPNet [0xfe, 0x80, 0, 0, 0, 0, 0, 0, 0, 0, 0, 0, 0, 0, 0, 1] [],
                     IPNet [0, 0, 0, 0, 0, 0, 0, 0, 0, 0, 0xff, 0xff, 10, 8, 0, 2] [],
                     IPNet [10, 8, 0, 3] [255, 255, 255, 0]]
              else if i = 1 then Inl ''permission denied''
              else Inr [IPNet [0xfe, 0x80, 0, 0, 0, 0, 0, 0, 0, 0, 0, 0, 0, 0, 0, 1] []])\<rparr>"

text \<open>
  A host whose interface \<open>tun0\<close> has one address, 10.8.0.2 in its 16-byte form.
\<close>

definition mapped_host :: "unit host" where
  "mapped_host =
     \<lparr>InterfaceByName =
        (\<lambda>n. if n = ''tun0'' then Inr () else Inl ''no such network interface''),
      Addrs = (\<lambda>i. Inr [IPNet [0, 0, 0, 0, 0, 0, 0, 0, 0, 0, 0xff, 0xff, 10, 8, 0, 2] []])\<rparr>"

lemmas example_defs =
  example_host_def example_conversion_def AddrFromSlice_def enumerated_def
  ipMatchesFamily_def Is4_def Is6_def Is4In6_def AddrFrom16_def AddrFrom4_def Unmap_def
  FAMILY_V4_def FAMILY_V6_def zero_Addr_def

section \<open>Go memory: pointers and slices\<close>

text \<open>
  The OpenVPN settings hold pointers and slices, and two of the claims are about what
  is shared between two settings values.  So the memory is explicit: for each type of
  pointee the list of the cells allocated so far, a cell's address being its index.
  A pointer is \<open>None\<close> for \<open>nil\<close> or the address of a cell; \<open>new\<close> allocates the next
  cell, which no pointer made before points to.
\<close>

type_synonym ptr = "nat option"

definition new :: "'a list \<Rightarrow> 'a \<Rightarrow> ptr \<times> 'a list" where
  "new cells v = (Some (length cells), cells @ [v])"

text \<open>Reading through a pointer; \<open>None\<close> is the panic of a nil dereference.\<close>

definition load :: "'a list \<Rightarrow> ptr \<Rightarrow> 'a option" where
  "load cells p =
     (case p of None \<Rightarrow> None | Some a \<Rightarrow> if a < length cells then Some (cells ! a) else None)"

text \<open>Writing through a pointer, \<open>*p = v\<close>; again \<open>None\<close> is the panic.\<close>

definition store :: "'a list \<Rightarrow> ptr \<Rightarrow> 'a \<Rightarrow> 'a list option" where
  "store cells p v =
     (case p of None \<Rightarrow> None | Some a \<Rightarrow> if a < length cells then Some (cells[a := v]) else None)"

text \<open>
  A slice is a pointer into a backing array, a length and a capacity; the pointer is the
  address of the array with the index of the slice's first element in it, \<open>None\<close> for the
  nil slice.  Arrays are cells like any other, holding the list of their elements.
\<close>

record slice =
  Data :: "(nat \<times> nat) option"
  Len :: nat
  Cap :: nat

definition nil_slice :: slice where
  "nil_slice = \<lparr>Data = None, Len = 0, Cap = 0\<rparr>"

definition elems :: "'a list list \<Rightarrow> slice \<Rightarrow> 'a list" where
  "elems arrs s =
     (case Data s of None \<Rightarrow> [] | Some (a, i) \<Rightarrow> take (Len s) (drop i (arrs ! a)))"

text \<open>
  Writing an element of the backing array through a slice, at an index below the
  capacity: \<open>s[k] = v\<close> for \<open>k < len(s)\<close>, and beyond the length what \<open>append\<close> or a
  reslice can reach.  \<open>None\<close> is the panic of an index out of range.
\<close>

definition store_elem :: "'a list list \<Rightarrow> slice \<Rightarrow> nat \<Rightarrow> 'a \<Rightarrow> 'a list list option" where
  "store_elem arrs s k v =
     (case Data s of
        None \<Rightarrow> None
      | Some (a, i) \<Rightarrow>
          if k < Cap s \<and> a < length arrs \<and> i + k < length (arrs ! a)
          then Some (arrs[a := (arrs ! a)[i + k := v]])
          else None)"

text \<open>
  The memory of the settings package: cells of strings, of \<open>uint16\<close>, of \<open>int\<close>, and
  arrays of strings.
\<close>

record memory =
  strings :: "string list"
  uint16s :: "16 word list"
  ints :: "int list"
  arrays :: "string list list"

text \<open>
  A pointer or slice that a Go program holds points to allocated memory; the garbage
  collector keeps it so.
\<close>

definition valid_ptr :: "'a list \<Rightarrow> ptr \<Rightarrow> bool" where
  "valid_ptr cells p = (case p of None \<Rightarrow> True | Some a \<Rightarrow> a < length cells)"

definition valid_slice :: "'a list list \<Rightarrow> slice \<Rightarrow> bool" where
  "valid_slice arrs s =
     (case Data s of
        None \<Rightarrow> Len s = 0 \<and> Cap s = 0
      | Some (a, i) \<Rightarrow> a < length arrs \<and> Len s \<le> Cap s \<and> i + Cap s \<le> length (arrs ! a))"

section \<open>Package \<open>helpers\<close>\<close>

text \<open>
  Modelled from the spec: the functions \<open>CopyPointer\<close>, \<open>CopySlice\<close>, \<open>DefaultPointer\<close> and
  \<open>DefaultString\<close> of the package \<open>helpers\<close> are not among the sources at hand, and the
  spec does not describe them; they are modelled after their names and their use in
  \<open>OpenVPN.copy\<close> and \<open>OpenVPN.setDefaults\<close>.  \<open>CopyPointer\<close> gives \<open>nil\<close> for \<open>nil\<close> and
  otherwise a pointer to a new cell holding the value of the original's; \<open>CopySlice\<close> gives
  \<open>nil\<close> for \<open>nil\<close> and otherwise a slice of the same length on a new array holding the
  original's elements; \<open>DefaultPointer\<close> gives the existing pointer unless it is \<open>nil\<close>, and
  then a pointer to a new cell holding the default; \<open>DefaultString\<close> gives the existing
  string unless it is empty, and then the default.
\<close>

definition CopyPointer :: "'a list \<Rightarrow> ptr \<Rightarrow> ptr \<times> 'a list" where
  "CopyPointer cells original =
     (case original of None \<Rightarrow> (None, cells) | Some a \<Rightarrow> new cells (cells ! a))"

definition CopySlice :: "'a list list \<Rightarrow> slice \<Rightarrow> slice \<times> 'a list list" where
  "CopySlice arrs original =
     (case Data original of
        None \<Rightarrow> (nil_slice, arrs)
      | Some (a, i) \<Rightarrow>
          (\<lparr>Data = Some (length arrs, 0), Len = Len original, Cap = Len original\<rparr>,
           arrs @ [elems arrs original]))"

definition DefaultPointer :: "'a list \<Rightarrow> ptr \<Rightarrow> 'a \<Rightarrow> ptr \<times> 'a list" where
  "DefaultPointer cells existing defaultValue =
     (if existing \<noteq> None then (existing, cells) else new cells defaultValue)"

definition DefaultString :: "string \<Rightarrow> string \<Rightarrow> string" where
  "DefaultString existing defaultValue = (if existing \<noteq> [] then existing else defaultValue)"

section \<open>Package \<open>settings\<close>: the OpenVPN settings\<close>

record OpenVPN =
  Version :: string
  User :: ptr
  Password :: ptr
  ConfFile :: ptr
  Ciphers :: slice
  Auth :: ptr
  Cert :: ptr
  Key :: ptr
  EncryptedKey :: ptr
  KeyPassphrase :: ptr
  PIAEncPreset :: ptr
  MSSFix :: ptr
  Interface :: string
  ProcessUser :: string
  Verbosity :: ptr
  Flags :: slice

text \<open>
  The pointers of a settings value point into the cells of their types: \<open>MSSFix\<close> to a
  \<open>uint16\<close>, \<open>Verbosity\<close> to an \<open>int\<close>, the others to strings.
\<close>

definition string_pointers :: "OpenVPN \<Rightarrow> ptr list" where
  "string_pointers ov =
     [User ov, Password ov, ConfFile ov, Auth ov, Cert ov, Key ov, EncryptedKey ov,
      KeyPassphrase ov, PIAEncPreset ov]"

definition valid_OpenVPN :: "memory \<Rightarrow> OpenVPN \<Rightarrow> bool" where
  "valid_OpenVPN M ov \<longleftrightarrow>
     list_all (valid_ptr (strings M)) (string_pointers ov)
     \<and> valid_ptr (uint16s M) (MSSFix ov) \<and> valid_ptr (ints M) (Verbosity ov)
     \<and> valid_slice (arrays M) (Ciphers ov) \<and> valid_slice (arrays M) (Flags ov)"

text \<open>
  \<^verbatim>\<open>
  func (o *OpenVPN) copy() (copied OpenVPN) {
      return OpenVPN{
          Version:       o.Version,
          User:          helpers.CopyPointer(o.User),
          Password:      helpers.CopyPointer(o.Password),
          ConfFile:      helpers.CopyPointer(o.ConfFile),
          Ciphers:       helpers.CopySlice(o.Ciphers),
          Auth:          helpers.CopyPointer(o.Auth),
          Cert:          helpers.CopyPointer(o.Cert),
          Key:           helpers.CopyPointer(o.Key),
          EncryptedKey:  helpers.CopyPointer(o.EncryptedKey),
          KeyPassphrase: helpers.CopyPointer(o.KeyPassphrase),
          PIAEncPreset:  helpers.CopyPointer(o.PIAEncPreset),
          MSSFix:        helpers.CopyPointer(o.MSSFix),
          Interface:     o.Interface,
          ProcessUser:   o.ProcessUser,
          Verbosity:     helpers.CopyPointer(o.Verbosity),
          Flags:         helpers.CopySlice(o.Flags),
      }
  }
  \<close>
  The fields are evaluated in the order written; each helper call may allocate, so the
  memory is passed from one to the next.  The receiver is called \<open>ov\<close> here.
\<close>

definition copy :: "memory \<Rightarrow> OpenVPN \<Rightarrow> OpenVPN \<times> memory" where
  "copy M ov =
     (let (user, s1) = CopyPointer (strings M) (User ov);
          (password, s2) = CopyPointer s1 (Password ov);
          (confFile, s3) = CopyPointer s2 (ConfFile ov);
          (ciphers, a1) = CopySlice (arrays M) (Ciphers ov);
          (auth, s4) = CopyPointer s3 (Auth ov);
          (cert, s5) = CopyPointer s4 (Cert ov);
          (key, s6) = CopyPointer s5 (Key ov);
          (encryptedKey, s7) = CopyPointer s6 (EncryptedKey ov);
          (keyPassphrase, s8) = CopyPointer s7 (KeyPassphrase ov);
          (piaEncPreset, s9) = CopyPointer s8 (PIAEncPreset ov);
          (mssFix, u1) = CopyPointer (uint16s M) (MSSFix ov);
          (verbosity, i1) = CopyPointer (ints M) (Verbosity ov);
          (flags, a2) = CopySlice a1 (Flags ov)
      in (\<lparr>Version = Version ov, User = user, Password = password, ConfFile = confFile,
           Ciphers = ciphers, Auth = auth, Cert = cert, Key = key,
           EncryptedKey = encryptedKey, KeyPassphrase = keyPassphrase,
           PIAEncPreset = piaEncPreset, MSSFix = mssFix, Interface = Interface ov,
           ProcessUser = ProcessUser ov, Verbosity = verbosity, Flags = flags\<rparr>,
          \<lparr>strings = s9, uint16s = u1, ints = i1, arrays = a2\<rparr>))"

text \<open>
  What a settings value holds, field by field: the three strings, what each pointer
  points to (\<open>None\<close> for a nil pointer), and the elements of each slice with whether the
  slice is nil.
\<close>

definition contents ::
  "memory \<Rightarrow> OpenVPN \<Rightarrow>
     (string \<times> string \<times> string) \<times> string option list \<times> 16 word option \<times> int option
       \<times> (string list \<times> bool) \<times> (string list \<times> bool)" where
  "contents M ov =
     ((Version ov, Interface ov, ProcessUser ov),
      map (load (strings M)) (string_pointers ov),
      load (uint16s M) (MSSFix ov),
      load (ints M) (Verbosity ov),
      (elems (arrays M) (Ciphers ov), Data (Ciphers ov) = None),
      (elems (arrays M) (Flags ov), Data (Flags ov) = None))"

text \<open>
  A write through a pointer field or a slice field of a settings value: \<open>*c.User = v\<close>
  and the like for the nine string pointers (numbered as in \<open>string_pointers\<close>),
  \<open>*c.MSSFix = v\<close>, \<open>*c.Verbosity = v\<close>, \<open>c.Ciphers[k] = v\<close> and \<open>c.Flags[k] = v\<close>.
\<close>

datatype field_write =
    Write_string nat string
  | Write_MSSFix "16 word"
  | Write_Verbosity int
  | Write_Ciphers nat string
  | Write_Flags nat string

fun write_through :: "OpenVPN \<Rightarrow> memory \<Rightarrow> field_write \<Rightarrow> memory option" where
  "write_through c M (Write_string f v) =
     (if f < length (string_pointers c)
      then map_option (\<lambda>cells. M\<lparr>strings := cells\<rparr>) (store (strings M) (string_pointers c ! f) v)
      else None)"
| "write_through c M (Write_MSSFix v) =
     map_option (\<lambda>cells. M\<lparr>uint16s := cells\<rparr>) (store (uint16s M) (MSSFix c) v)"
| "write_through c M (Write_Verbosity v) =
     map_option (\<lambda>cells. M\<lparr>ints := cells\<rparr>) (store (ints M) (Verbosity c) v)"
| "write_through c M (Write_Ciphers k v) =
     map_option (\<lambda>cells. M\<lparr>arrays := cells\<rparr>) (store_elem (arrays M) (Ciphers c) k v)"
| "write_through c M (Write_Flags k v) =
     map_option (\<lambda>cells. M\<lparr>arrays := cells\<rparr>) (store_elem (arrays M) (Flags c) k v)"

text \<open>Any number of such writes, one after the other; a panic ends the run.\<close>

fun writes_through :: "OpenVPN \<Rightarrow> memory \<Rightarrow> field_write list \<Rightarrow> memory option" where
  "writes_through c M [] = Some M"
| "writes_through c M (w # ws) =
     (case write_through c M w of None \<Rightarrow> None | Some M' \<Rightarrow> writes_through c M' ws)"

text \<open>
  The parts of other packages of the repository that the settings use and that are not
  among the sources at hand are parameters of the model: the OpenVPN versions of
  \<open>constants/openvpn\<close>, the provider names of \<open>constants/providers\<close>, the preset
  \<open>presets.Strong\<close>, the sentinel errors of the package, \<open>helpers.IsOneOf\<close>,
  \<open>helpers.FileExists\<close>, the extraction of a configuration file (\<open>extract.New().Data\<close>, of
  which only the error is used) and the regular expression \<open>regexpInterfaceName\<close> with its
  source text; so is \<open>base64.StdEncoding.DecodeString\<close> of the standard library, of which
  only the error is used.
\<close>

record deps =
  Openvpn24 :: string
  Openvpn25 :: string
  Airvpn :: string
  Custom :: string
  Cyberghost :: string
  Ivpn :: string
  Mullvad :: string
  PrivateInternetAccess :: string
  VPNSecure :: string
  VPNUnlimited :: string
  Wevpn :: string
  Strong :: string
  ErrOpenVPNVersionIsNotValid :: error
  ErrOpenVPNUserIsEmpty :: error
  ErrOpenVPNPasswordIsEmpty :: error
  ErrOpenVPNKeyPassphraseIsEmpty :: error
  ErrOpenVPNMSSFixIsTooHigh :: error
  ErrOpenVPNInterfaceNotValid :: error
  ErrOpenVPNVerbosityIsOutOfBounds :: error
  ErrFilepathMissing :: error
  ErrMissingValue :: error
  IsOneOf :: "string \<Rightarrow> string list \<Rightarrow> bool"
  FileExists :: "string \<Rightarrow> error option"
  extract_Data :: "string \<Rightarrow> error option"
  base64_DecodeString :: "string \<Rightarrow> error option"
  regexpInterfaceName :: string
  regexpInterfaceName_MatchString :: "string \<Rightarrow> bool"

text \<open>\<open>strings.Join\<close> of the standard library.\<close>

fun strings_Join :: "string list \<Rightarrow> string \<Rightarrow> string" where
  "strings_Join [] sep = []"
| "strings_Join [x] sep = x"
| "strings_Join (x # y # xs) sep = x @ sep @ strings_Join (y # xs) sep"

text \<open>
  \<^verbatim>\<open>
  var ivpnAccountID = regexp.MustCompile(
      `^(i|ivpn)\-[a-zA-Z0-9]{4}\-[a-zA-Z0-9]{4}\-[a-zA-Z0-9]{4}$`)
  \<close>
  A string matches when it is \<open>i\<close> or \<open>ivpn\<close> followed by three groups of a dash and four
  letters or digits, and nothing more.
\<close>

definition alphanumeric :: "char \<Rightarrow> bool" where
  "alphanumeric c \<longleftrightarrow>
     (let n = (of_char c :: nat) in
      (97 \<le> n \<and> n \<le> 122) \<or> (65 \<le> n \<and> n \<le> 90) \<or> (48 \<le> n \<and> n \<le> 57))"

definition ivpnAccountID_MatchString :: "string \<Rightarrow> bool" where
  "ivpnAccountID_MatchString s \<longleftrightarrow>
     (case (if take 2 s = ''i-'' then Some (drop 2 s)
            else if take 5 s = ''ivpn-'' then Some (drop 5 s) else None) of
        None \<Rightarrow> False
      | Some g \<Rightarrow>
          length g = 14
          \<and> list_all alphanumeric (take 4 g) \<and> g ! 4 = CHR ''-''
          \<and> list_all alphanumeric (take 4 (drop 5 g)) \<and> g ! 9 = CHR ''-''
          \<and> list_all alphanumeric (drop 10 g))"

text \<open>
  \<^verbatim>\<open>
  func validateOpenVPNConfigFilepath(isCustom bool, confFile string) (err error) {
      if !isCustom {
          return nil
      }
      if confFile == "" {
          return fmt.Errorf("%w", ErrFilepathMissing)
      }
      err = helpers.FileExists(confFile)
      if err != nil {
          return err
      }
      extractor := extract.New()
      _, _, err = extractor.Data(confFile)
      if err != nil {
          return fmt.Errorf("extracting information from custom configuration file: %w", err)
      }
      return nil
  }
  \<close>
\<close>

definition validateOpenVPNConfigFilepath :: "deps \<Rightarrow> bool \<Rightarrow> string \<Rightarrow> error option" where
  "validateOpenVPNConfigFilepath D isCustom confFile =
     (if \<not> isCustom then None
      else if confFile = [] then Some (fmt_Errorf ''%w'' [ArgError (ErrFilepathMissing D)])
      else case FileExists D confFile of
             Some err \<Rightarrow> Some err
           | None \<Rightarrow>
               (case extract_Data D confFile of
                  Some err \<Rightarrow>
                    Some (fmt_Errorf
                            ''extracting information from custom configuration file: %w''
                            [ArgError err])
                | None \<Rightarrow> None))"

text \<open>
  \<^verbatim>\<open>
  func validateOpenVPNClientCertificate(vpnProvider, clientCert string) (err error) {
      switch vpnProvider {
      case providers.Airvpn, providers.Cyberghost, providers.VPNSecure, providers.VPNUnlimited:
          if clientCert == "" {
              return fmt.Errorf("%w", ErrMissingValue)
          }
      }
      if clientCert == "" {
          return nil
      }
      _, err = base64.StdEncoding.DecodeString(clientCert)
      if err != nil {
          return err
      }
      return nil
  }
  \<close>
  \<open>validateOpenVPNClientKey\<close> is the same for the providers Airvpn, Cyberghost,
  VPNUnlimited and Wevpn, and \<open>validateOpenVPNEncryptedKey\<close> for VPNSecure alone.
\<close>

definition validateOpenVPNClientCertificate :: "deps \<Rightarrow> string \<Rightarrow> string \<Rightarrow> error option" where
  "validateOpenVPNClientCertificate D vpnProvider clientCert =
     (if vpnProvider \<in> set [Airvpn D, Cyberghost D, VPNSecure D, VPNUnlimited D] \<and> clientCert = []
      then Some (fmt_Errorf ''%w'' [ArgError (ErrMissingValue D)])
      else if clientCert = [] then None
      else base64_DecodeString D clientCert)"

definition validateOpenVPNClientKey :: "deps \<Rightarrow> string \<Rightarrow> string \<Rightarrow> error option" where
  "validateOpenVPNClientKey D vpnProvider clientKey =
     (if vpnProvider \<in> set [Airvpn D, Cyberghost D, VPNUnlimited D, Wevpn D] \<and> clientKey = []
      then Some (fmt_Errorf ''%w'' [ArgError (ErrMissingValue D)])
      else if clientKey = [] then None
      else base64_DecodeString D clientKey)"

definition validateOpenVPNEncryptedKey :: "deps \<Rightarrow> string \<Rightarrow> string \<Rightarrow> error option" where
  "validateOpenVPNEncryptedKey D vpnProvider encryptedPrivateKey =
     (if vpnProvider = VPNSecure D \<and> encryptedPrivateKey = []
      then Some (fmt_Errorf ''%w'' [ArgError (ErrMissingValue D)])
      else if encryptedPrivateKey = [] then None
      else base64_DecodeString D encryptedPrivateKey)"

text \<open>
  \<open>OpenVPN.validate\<close> is a chain of checks.  Each check panics on a nil pointer (\<open>None\<close>),
  returns an error (\<open>Some (Some err)\<close>) or passes (\<open>Some None\<close>), and only then the rest of
  the function runs.
\<close>

definition and_then :: "error option option \<Rightarrow> error option option \<Rightarrow> error option option" where
  "and_then check rest =
     (case check of None \<Rightarrow> None | Some (Some err) \<Rightarrow> Some (Some err) | Some None \<Rightarrow> rest)"

text \<open>
  \<^verbatim>\<open>
  func (o OpenVPN) validate(vpnProvider string) (err error) {
      validVersions := []string{openvpn.Openvpn24, openvpn.Openvpn25}
      if !helpers.IsOneOf(o.Version, validVersions...) {
          return fmt.Errorf("%w: %q can only be one of %s",
              ErrOpenVPNVersionIsNotValid, o.Version, strings.Join(validVersions, ", "))
      }
      isCustom := vpnProvider == providers.Custom
      isUserRequired := !isCustom &&
          vpnProvider != providers.Airvpn &&
          vpnProvider != providers.VPNSecure
      if isUserRequired && *o.User == "" {
          return fmt.Errorf("%w", ErrOpenVPNUserIsEmpty)
      }
      passwordRequired := isUserRequired &&
          (vpnProvider != providers.Ivpn || !ivpnAccountID.MatchString(*o.User))
      if passwordRequired && *o.Password == "" {
          return fmt.Errorf("%w", ErrOpenVPNPasswordIsEmpty)
      }
      err = validateOpenVPNConfigFilepath(isCustom, *o.ConfFile)
      if err != nil {
          return fmt.Errorf("custom configuration file: %w", err)
      }
      err = validateOpenVPNClientCertificate(vpnProvider, *o.Cert)
      if err != nil {
          return fmt.Errorf("client certificate: %w", err)
      }
      err = validateOpenVPNClientKey(vpnProvider, *o.Key)
      if err != nil {
          return fmt.Errorf("client key: %w", err)
      }
      err = validateOpenVPNEncryptedKey(vpnProvider, *o.EncryptedKey)
      if err != nil {
          return fmt.Errorf("encrypted key: %w", err)
      }
      if *o.EncryptedKey != "" && *o.KeyPassphrase == "" {
          return fmt.Errorf("%w", ErrOpenVPNKeyPassphraseIsEmpty)
      }
      const maxMSSFix = 10000
      if *o.MSSFix > maxMSSFix {
          return fmt.Errorf("%w: %d is over the maximum value of %d",
              ErrOpenVPNMSSFixIsTooHigh, *o.MSSFix, maxMSSFix)
      }
      if !regexpInterfaceName.MatchString(o.Interface) {
          return fmt.Errorf("%w: '%s' does not match regex '%s'",
              ErrOpenVPNInterfaceNotValid, o.Interface, regexpInterfaceName)
      }
      if *o.Verbosity < 0 || *o.Verbosity > 6 {
          return fmt.Errorf("%w: %d can only be between 0 and 5",
              ErrOpenVPNVerbosityIsOutOfBounds, o.Verbosity)
      }
      return nil
  }
  \<close>
  The operators \<open>&&\<close> and \<open>||\<close> evaluate their right operand only when needed, so a
  pointer is dereferenced only where the condition gets that far.  The operand of \<open>%d\<close>
  in the last error is the pointer \<open>o.Verbosity\<close>, not the value it points to.  The
  verbosity is a Go \<open>int\<close>, which is only compared here; it is modelled as an integer.
\<close>

definition validate :: "deps \<Rightarrow> memory \<Rightarrow> OpenVPN \<Rightarrow> string \<Rightarrow> error option option" where
  "validate D M ov vpnProvider =
     (let validVersions = [Openvpn24 D, Openvpn25 D];
          isCustom = (vpnProvider = Custom D);
          isUserRequired = (\<not> isCustom \<and> vpnProvider \<noteq> Airvpn D \<and> vpnProvider \<noteq> VPNSecure D)
      in
      and_then
        (if \<not> IsOneOf D (Version ov) validVersions
         then Some (Some (fmt_Errorf ''%w: %q can only be one of %s''
                            [ArgError (ErrOpenVPNVersionIsNotValid D), ArgString (Version ov),
                             ArgString (strings_Join validVersions '', '')]))
         else Some None)
     (and_then
        (if isUserRequired
         then Option.bind (load (strings M) (User ov)) (\<lambda>user.
                if user = [] then Some (Some (fmt_Errorf ''%w'' [ArgError (ErrOpenVPNUserIsEmpty D)]))
                else Some None)
         else Some None)
     (and_then
        (Option.bind
           (if isUserRequired
            then (if vpnProvider \<noteq> Ivpn D then Some True
                  else map_option (\<lambda>user. \<not> ivpnAccountID_MatchString user)
                         (load (strings M) (User ov)))
            else Some False)
           (\<lambda>passwordRequired.
              if passwordRequired
              then Option.bind (load (strings M) (Password ov)) (\<lambda>password.
                     if password = []
                     then Some (Some (fmt_Errorf ''%w'' [ArgError (ErrOpenVPNPasswordIsEmpty D)]))
                     else Some None)
              else Some None))
     (and_then
        (Option.bind (load (strings M) (ConfFile ov)) (\<lambda>confFile.
           Some (map_option (\<lambda>err. fmt_Errorf ''custom configuration file: %w'' [ArgError err])
                   (validateOpenVPNConfigFilepath D isCustom confFile))))
     (and_then
        (Option.bind (load (strings M) (Cert ov)) (\<lambda>cert.
           Some (map_option (\<lambda>err. fmt_Errorf ''client certificate: %w'' [ArgError err])
                   (validateOpenVPNClientCertificate D vpnProvider cert))))
     (and_then
        (Option.bind (load (strings M) (Key ov)) (\<lambda>key.
           Some (map_option (\<lambda>err. fmt_Errorf ''client key: %w'' [ArgError err])
                   (validateOpenVPNClientKey D vpnProvider key))))
     (and_then
        (Option.bind (load (strings M) (EncryptedKey ov)) (\<lambda>encryptedKey.
           Some (map_option (\<lambda>err. fmt_Errorf ''encrypted key: %w'' [ArgError err])
                   (validateOpenVPNEncryptedKey D vpnProvider encryptedKey))))
     (and_then
        (Option.bind (load (strings M) (EncryptedKey ov)) (\<lambda>encryptedKey.
           if encryptedKey \<noteq> []
           then Option.bind (load (strings M) (KeyPassphrase ov)) (\<lambda>keyPassphrase.
                  if keyPassphrase = []
                  then Some (Some (fmt_Errorf ''%w'' [ArgError (ErrOpenVPNKeyPassphraseIsEmpty D)]))
                  else Some None)
           else Some None))
     (and_then
        (Option.bind (load (uint16s M) (MSSFix ov)) (\<lambda>mssFix.
           if mssFix > 10000
           then Some (Some (fmt_Errorf ''%w: %d is over the maximum value of %d''
                              [ArgError (ErrOpenVPNMSSFixIsTooHigh D), ArgUint16 mssFix,
                               ArgInt 10000]))
           else Some None))
     (and_then
        (if \<not> regexpInterfaceName_MatchString D (Interface ov)
         then Some (Some (fmt_Errorf
                            (''%w: '' @ CHR 0x27 # ''%s'' @ CHR 0x27 # '' does not match regex ''
                               @ CHR 0x27 # ''%s'' @ [CHR 0x27])
                            [ArgError (ErrOpenVPNInterfaceNotValid D), ArgString (Interface ov),
                             ArgRegexp (regexpInterfaceName D)]))
         else Some None)
        (Option.bind (load (ints M) (Verbosity ov)) (\<lambda>verbosity.
           if verbosity < 0 \<or> verbosity > 6
           then Some (Some (fmt_Errorf ''%w: %d can only be between 0 and 5''
                              [ArgError (ErrOpenVPNVerbosityIsOutOfBounds D),
                               ArgPointer (Verbosity ov)]))
           else Some None))))))))))))"

text \<open>
  \<^verbatim>\<open>
  func (o *OpenVPN) setDefaults(vpnProvider string) {
      o.Version = helpers.DefaultString(o.Version, openvpn.Openvpn25)
      o.User = helpers.DefaultPointer(o.User, "")
      if vpnProvider == providers.Mullvad {
          o.Password = helpers.DefaultPointer(o.Password, "m")
      } else {
          o.Password = helpers.DefaultPointer(o.Password, "")
      }
      o.ConfFile = helpers.DefaultPointer(o.ConfFile, "")
      o.Auth = helpers.DefaultPointer(o.Auth, "")
      o.Cert = helpers.DefaultPointer(o.Cert, "")
      o.Key = helpers.DefaultPointer(o.Key, "")
      o.EncryptedKey = helpers.DefaultPointer(o.EncryptedKey, "")
      o.KeyPassphrase = helpers.DefaultPointer(o.KeyPassphrase, "")
      var defaultEncPreset string
      if vpnProvider == providers.PrivateInternetAccess {
          defaultEncPreset = presets.Strong
      }
      o.PIAEncPreset = helpers.DefaultPointer(o.PIAEncPreset, defaultEncPreset)
      o.MSSFix = helpers.DefaultPointer(o.MSSFix, 0)
      o.Interface = helpers.DefaultString(o.Interface, "tun0")
      o.ProcessUser = helpers.DefaultString(o.ProcessUser, "root")
      o.Verbosity = helpers.DefaultPointer(o.Verbosity, 1)
  }
  \<close>
  The method changes the settings its receiver points to; the model returns them.
\<close>

definition setDefaults :: "deps \<Rightarrow> memory \<Rightarrow> OpenVPN \<Rightarrow> string \<Rightarrow> OpenVPN \<times> memory" where
  "setDefaults D M ov vpnProvider =
     (let version = DefaultString (Version ov) (Openvpn25 D);
          (user, s1) = DefaultPointer (strings M) (User ov) [];
          (password, s2) =
            (if vpnProvider = Mullvad D then DefaultPointer s1 (Password ov) ''m''
             else DefaultPointer s1 (Password ov) []);
          (confFile, s3) = DefaultPointer s2 (ConfFile ov) [];
          (auth, s4) = DefaultPointer s3 (Auth ov) [];
          (cert, s5) = DefaultPointer s4 (Cert ov) [];
          (key, s6) = DefaultPointer s5 (Key ov) [];
          (encryptedKey, s7) = DefaultPointer s6 (EncryptedKey ov) [];
          (keyPassphrase, s8) = DefaultPointer s7 (KeyPassphrase ov) [];
          defaultEncPreset = (if vpnProvider = PrivateInternetAccess D then Strong D else []);
          (piaEncPreset, s9) = DefaultPointer s8 (PIAEncPreset ov) defaultEncPreset;
          (mssFix, u1) = DefaultPointer (uint16s M) (MSSFix ov) 0;
          interface = DefaultString (Interface ov) ''tun0'';
          processUser = DefaultString (ProcessUser ov) ''root'';
          (verbosity, i1) = DefaultPointer (ints M) (Verbosity ov) 1
      in (ov\<lparr>Version := version, User := user, Password := password, ConfFile := confFile,
             Auth := auth, Cert := cert, Key := key, EncryptedKey := encryptedKey,
             KeyPassphrase := keyPassphrase, PIAEncPreset := piaEncPreset, MSSFix := mssFix,
             Interface := interface, ProcessUser := processUser, Verbosity := verbosity\<rparr>,
          M\<lparr>strings := s9, uint16s := u1, ints := i1\<rparr>))"

subsection \<open>Relations between memories\<close>

text \<open>
  What the helpers keep true from one call to the next.  A memory agrees with an earlier
  one when every cell of the earlier one is still there with its value; a pointer is
  fresh for a memory when it is nil or points beyond that memory's cells; a pointer was
  copied from another when it is nil with it or points to a fresh cell of equal value.
\<close>

definition copied_from :: "'a list \<Rightarrow> 'a list \<Rightarrow> ptr \<Rightarrow> ptr \<Rightarrow> bool" where
  "copied_from h0 h p q \<longleftrightarrow>
     (case p of
        None \<Rightarrow> q = None
      | Some a \<Rightarrow> \<exists>b. q = Some b \<and> length h0 \<le> b \<and> b < length h \<and> h ! b = h0 ! a)"

definition agree :: "memory \<Rightarrow> memory \<Rightarrow> bool" where
  "agree M M' \<longleftrightarrow>
     prefix (strings M) (strings M') \<and> prefix (uint16s M) (uint16s M')
     \<and> prefix (ints M) (ints M') \<and> prefix (arrays M) (arrays M')"

definition fresh_ptr :: "'a list \<Rightarrow> ptr \<Rightarrow> bool" where
  "fresh_ptr h0 q = (case q of None \<Rightarrow> True | Some b \<Rightarrow> length h0 \<le> b)"

definition fresh_slice :: "'a list list \<Rightarrow> slice \<Rightarrow> bool" where
  "fresh_slice h0 s = (case Data s of None \<Rightarrow> True | Some (b, i) \<Rightarrow> length h0 \<le> b)"

definition fresh_OpenVPN :: "memory \<Rightarrow> OpenVPN \<Rightarrow> bool" where
  "fresh_OpenVPN M c \<longleftrightarrow>
     list_all (fresh_ptr (strings M)) (string_pointers c)
     \<and> fresh_ptr (uint16s M) (MSSFix c) \<and> fresh_ptr (ints M) (Verbosity c)
     \<and> fresh_slice (arrays M) (Ciphers c) \<and> fresh_slice (arrays M) (Flags c)"

subsection \<open>Settings for the examples\<close>

definition example_memory :: memory where
  "example_memory =
     \<lparr>strings = [''alice'', ''secret''], uint16s = [1400], ints = [3],
      arrays = [[''aes-256-gcm'', ''aes-128-gcm'']]\<rparr>"

definition example_settings :: OpenVPN where
  "example_settings =
     \<lparr>Version = ''2.5'', User = Some 0, Password = Some 1, ConfFile = None,
      Ciphers = \<lparr>Data = Some (0, 0), Len = 2, Cap = 2\<rparr>, Auth = None, Cert = None,
      Key = None, EncryptedKey = None, KeyPassphrase = None, PIAEncPreset = None,
      MSSFix = Some 0, Interface = [], ProcessUser = ''root'', Verbosity = Some 0,
      Flags = nil_slice\<rparr>"

lemmas memory_defs =
  CopyPointer_def CopySlice_def DefaultPointer_def DefaultString_def new_def load_def store_def
  store_elem_def elems_def nil_slice_def valid_ptr_def valid_slice_def valid_OpenVPN_def
  string_pointers_def contents_def

definition example_deps :: deps where
  "example_deps =
     \<lparr>Openvpn24 = ''2.4'', Openvpn25 = ''2.5'', Airvpn = ''airvpn'', Custom = ''custom'',
      Cyberghost = ''cyberghost'', Ivpn = ''ivpn'', Mullvad = ''mullvad'',
      PrivateInternetAccess = ''private internet access'', VPNSecure = ''vpnsecure'',
      VPNUnlimited = ''vpn unlimited'', Wevpn = ''wevpn'', Strong = ''strong'',
      ErrOpenVPNVersionIsNotValid = errors_New ''version is not valid'',
      ErrOpenVPNUserIsEmpty = errors_New ''user is empty'',
      ErrOpenVPNPasswordIsEmpty = errors_New ''password is empty'',
      ErrOpenVPNKeyPassphraseIsEmpty = errors_New ''key passphrase is empty'',
      ErrOpenVPNMSSFixIsTooHigh = errors_New ''mssfix option value is too high'',
      ErrOpenVPNInterfaceNotValid = errors_New ''interface name is not valid'',
      ErrOpenVPNVerbosityIsOutOfBounds = errors_New ''verbosity value is out of bounds'',
      ErrFilepathMissing = errors_New ''filepath is missing'',
      ErrMissingValue = errors_New ''missing value'',
      IsOneOf = (\<lambda>v choices. v \<in> set choices),
      FileExists = (\<lambda>path. None),
      extract_Data = (\<lambda>path. None),
      base64_DecodeString = (\<lambda>s. None),
      regexpInterfaceName = ''^[a-zA-Z0-9_]+$'',
      regexpInterfaceName_MatchString =
        (\<lambda>s. s \<noteq> [] \<and> list_all (\<lambda>c. alphanumeric c \<or> c = CHR ''_'') s)\<rparr>"

definition defaulted_settings :: OpenVPN where
  "defaulted_settings =
     \<lparr>Version = ''2.5'', User = Some 0, Password = Some 1, ConfFile = Some 2,
      Ciphers = \<lparr>Data = Some (0, 0), Len = 2, Cap = 2\<rparr>, Auth = Some 3, Cert = Some 4,
      Key = Some 5, EncryptedKey = Some 6, KeyPassphrase = Some 7, PIAEncPreset = Some 8,
      MSSFix = Some 0, Interface = ''tun0'', ProcessUser = ''root'', Verbosity = Some 0,
      Flags = nil_slice\<rparr>"

definition defaulted_memory :: memory where
  "defaulted_memory =
     \<lparr>strings = [''alice'', ''secret'', [], [], [], [], [], [], []], uint16s = [1400],
      ints = [3], arrays = [[''aes-256-gcm'', ''aes-128-gcm'']]\<rparr>"

section \<open>Package \<open>updater\<close> of the Cyberghost provider\<close>

text \<open>
  \<open>FetchServers\<close> is made of calls into parts of the repository that are not among the
  sources at hand; they are parameters of the model: the table of possible servers
  (\<open>getPossibleServers\<close>) with its methods \<open>hostsSlice\<close>, \<open>adaptWithIPs\<close> (which changes the
  table in place; here it returns the changed table) and \<open>toSlice\<close>, the parallel resolver
  (\<open>u.presolver.Resolve\<close>, which returns the IPs of the hosts, warnings and an error), and
  the order \<open>Less\<close> of \<open>models.SortableServers\<close>, taken on the servers themselves.
\<close>

record ('h, 'i, 'c, 's) updater =
  getPossibleServers :: "'h"
  hostsSlice :: "'h \<Rightarrow> string list"
  presolver_Resolve :: "'c \<Rightarrow> string list \<Rightarrow> int \<Rightarrow> 'i \<times> string list \<times> error option"
  adaptWithIPs :: "'h \<Rightarrow> 'i \<Rightarrow> 'h"
  toSlice :: "'h \<Rightarrow> 's list"
  Less :: "'s \<Rightarrow> 's \<Rightarrow> bool"

text \<open>
  \<open>sort.Sort\<close> of the standard library sorts its argument in place by the argument's
  \<open>Less\<close>; it is not stable, and it promises a sorted result only for a \<open>Less\<close> that is a
  strict weak order.  The model sorts by insertion and leaves servers that \<open>Less\<close> does
  not tell apart in the order they had; the properties below use of it only that the
  result is a rearrangement of the input and is sorted.
\<close>

fun sort_insert :: "('s \<Rightarrow> 's \<Rightarrow> bool) \<Rightarrow> 's \<Rightarrow> 's list \<Rightarrow> 's list" where
  "sort_insert lt x [] = [x]"
| "sort_insert lt x (y # ys) =
     (if lt y x then y # sort_insert lt x ys else x # y # ys)"

definition sort_Sort :: "('s \<Rightarrow> 's \<Rightarrow> bool) \<Rightarrow> 's list \<Rightarrow> 's list" where
  "sort_Sort lt xs = foldr (sort_insert lt) xs []"

definition strict_weak_order :: "('s \<Rightarrow> 's \<Rightarrow> bool) \<Rightarrow> bool" where
  "strict_weak_order lt \<longleftrightarrow>
     (\<forall>a b. lt a b \<longrightarrow> \<not> lt b a)
     \<and> (\<forall>a b c. \<not> lt a b \<and> \<not> lt b c \<longrightarrow> \<not> lt a c)"

text \<open>
  \<^verbatim>\<open>
  func (u *Updater) FetchServers(ctx context.Context, minServers int) (
      servers []models.Server, err error) {
      possibleServers := getPossibleServers()
      possibleHosts := possibleServers.hostsSlice()
      hostToIPs, _, err := u.presolver.Resolve(ctx, possibleHosts, minServers)
      if err != nil {
          return nil, err
      }
      possibleServers.adaptWithIPs(hostToIPs)
      servers = possibleServers.toSlice()
      sort.Sort(models.SortableServers(servers))
      return servers, nil
  }
  \<close>
  The result is the pair of Go: the slice, \<open>None\<close> for \<open>nil\<close>, and the error, \<open>None\<close> for
  \<open>nil\<close>.
\<close>

definition FetchServers ::
  "('h, 'i, 'c, 's) updater \<Rightarrow> 'c \<Rightarrow> int \<Rightarrow> 's list option \<times> error option" where
  "FetchServers u ctx minServers =
     (let possibleServers = getPossibleServers u;
          possibleHosts = hostsSlice u possibleServers
      in case presolver_Resolve u ctx possibleHosts minServers of
           (hostToIPs, warnings, Some err) \<Rightarrow> (None, Some err)
         | (hostToIPs, warnings, None) \<Rightarrow>
             (let possibleServers = adaptWithIPs u possibleServers hostToIPs;
                  servers = toSlice u possibleServers;
                  servers = sort_Sort (Less u) servers
              in (Some servers, None)))"

text \<open>
  An updater for the examples: the servers are numbers, ordered as numbers; the
  resolver fails when the context (a truth value here) is cancelled, and otherwise
  gives an offset that \<open>adaptWithIPs\<close> adds to every server.
\<close>

definition example_updater :: "(nat list, nat, bool, nat) updater" where
  "example_updater =
     \<lparr>getPossibleServers = [3, 1, 2],
      hostsSlice = map (\<lambda>n. ''host''),
      presolver_Resolve =
        (\<lambda>ctx hosts minServers.
           if ctx then (10, [], None) else (0, [], Some (errors_New ''context canceled''))),
      adaptWithIPs = (\<lambda>servers offset. map (\<lambda>n. n + offset) servers),
      toSlice = (\<lambda>servers. servers),
      Less = (\<lambda>a b. a < b)\<rparr>"

section \<open>Properties of the address predicates\<close>

lemma lo_AddrFrom4:
  "lo (addr (AddrFrom4 a b c d)) =
     push_bit 32 0xffff OR push_bit 24 (ucast a) OR push_bit 16 (ucast b)
       OR push_bit 8 (ucast c) OR ucast d"
  by (simp add: AddrFrom4_def)

lemma byte_of_packed:
  fixes a b c d :: "8 word" and k :: "64 word"
  defines "w \<equiv> push_bit 32 k OR push_bit 24 (ucast a) OR push_bit 16 (ucast b)
                 OR push_bit 8 (ucast c) OR ucast d"
  shows "ucast (drop_bit 24 w) = a" and "ucast (drop_bit 16 w) = b"
    and "ucast (drop_bit 8 w) = c" and "ucast w = d"
  unfolding w_def
  by (rule bit_word_eqI; auto simp add: bit_simps dest: bit_imp_le_length)+

lemma v4_shift:
  "v4 ip 0 = ucast (drop_bit 24 (lo (addr ip)))"
  "v4 ip (Suc 0) = ucast (drop_bit 16 (lo (addr ip)))"
  "v4 ip 2 = ucast (drop_bit 8 (lo (addr ip)))"
  "v4 ip 3 = ucast (lo (addr ip))"
  by (simp_all add: v4_def)

text \<open>The bytes of an IPv4 address are the bytes it was made from.\<close>

lemma v4_AddrFrom4:
  "v4 (AddrFrom4 a b c d) 0 = a" "v4 (AddrFrom4 a b c d) (Suc 0) = b"
  "v4 (AddrFrom4 a b c d) 2 = c" "v4 (AddrFrom4 a b c d) 3 = d"
  by (simp_all only: v4_shift lo_AddrFrom4 byte_of_packed)

lemma family_of_AddrFrom4:
  "Is4 (AddrFrom4 a b c d)" "\<not> Is6 (AddrFrom4 a b c d)" "\<not> Is4In6 (AddrFrom4 a b c d)"
  by (simp_all add: Is4_def Is6_def Is4In6_def AddrFrom4_def)

text \<open>
  The 16 bytes of an IPv4-mapped address give the 128 bits of the IPv4 address,
  under the zone marker of IPv6.
\<close>

lemma AddrFrom16_mapped:
  "AddrFrom16 [0, 0, 0, 0, 0, 0, 0, 0, 0, 0, 0xff, 0xff, a, b, c, d] =
     (AddrFrom4 a b c d)\<lparr>z := z6noz\<rparr>"
  by (simp add: AddrFrom16_def AddrFrom4_def) (simp add: ac_simps)

lemma not_Is4In6_Unmap: "\<not> Is4In6 (Unmap ip)"
  by (simp add: Unmap_def Is4In6_def Is6_def)

lemma Unmap_Is4In6: "Is4In6 ip \<Longrightarrow> Unmap ip = ip\<lparr>z := z4\<rparr>"
  by (simp add: Unmap_def)

lemma Unmap_other: "\<not> Is4In6 ip \<Longrightarrow> Unmap ip = ip"
  by (simp add: Unmap_def)

lemma ipMatchesFamily_valid: "ipMatchesFamily ip family \<Longrightarrow> z ip \<noteq> z0"
  by (auto simp add: ipMatchesFamily_def Is4_def Is6_def Is4In6_def)

text \<open>
  What \<open>ipMatchesFamily\<close> computes for the two families: V4 is matched by the IPv4 and
  the IPv4-mapped addresses, V6 by every IPv6 address, the IPv4-mapped ones included.
\<close>

lemma ipMatchesFamily_V4: "ipMatchesFamily ip FAMILY_V4 \<longleftrightarrow> Is4 ip \<or> Is4In6 ip"
  by (simp add: ipMatchesFamily_def FAMILY_V4_def FAMILY_V6_def)

lemma ipMatchesFamily_V6: "ipMatchesFamily ip FAMILY_V6 \<longleftrightarrow> Is6 ip"
  by (simp add: ipMatchesFamily_def FAMILY_V4_def FAMILY_V6_def)

text \<open>
  Claim C1.  The spec has \<open>MatchesFamily(addr, family)\<close> true exactly when the family is
  V6 and the address is a genuine V6 address, or the family is V4 and the address is V4,
  also in IPv4-mapped form; so an IPv4-mapped address is to match V4 and not V6.  The
  code takes every address for which \<open>Is6\<close> holds as a V6 address, and \<open>Is6\<close> holds of
  the IPv4-mapped addresses too: \<open>::ffff:192.0.2.1\<close> matches V4 and matches V6.
\<close>

theorem ipMatchesFamily_mapped_both:
  "Is4In6 (AddrFrom16 [0, 0, 0, 0, 0, 0, 0, 0, 0, 0, 0xff, 0xff, 192, 0, 2, 1])
   \<and> ipMatchesFamily (AddrFrom16 [0, 0, 0, 0, 0, 0, 0, 0, 0, 0, 0xff, 0xff, 192, 0, 2, 1]) FAMILY_V4
   \<and> ipMatchesFamily (AddrFrom16 [0, 0, 0, 0, 0, 0, 0, 0, 0, 0, 0xff, 0xff, 192, 0, 2, 1]) FAMILY_V6"
  by (simp add: ipMatchesFamily_def Is4In6_def Is6_def AddrFrom16_def)

lemma byte_cases: "(b :: 8 word) \<in> set (map of_nat [0..<256])"
proof -
  have "unat b < 256" using unsigned_less [of b] by simp
  moreover have "b = of_nat (unat b)" by simp
  ultimately have "b \<in> of_nat ` {0..<256}" by (intro image_eqI) simp_all
  then show ?thesis by simp
qed

lemma mask_172: "list_all (\<lambda>b :: 8 word. (b AND 0xf0 = 16) = (16 \<le> b \<and> b \<le> 31)) (map of_nat [0..<256])"
  by code_simp

lemma private_172: "(b :: 8 word) AND 0xf0 = 16 \<longleftrightarrow> 16 \<le> b \<and> b \<le> 31"
  using mask_172 byte_cases [of b] by (simp only: list_all_iff)

lemma bytes_of_beUint64:
  fixes c0 c1 c2 c3 c4 c5 c6 c7 :: "8 word"
  defines "w \<equiv> beUint64 [c0, c1, c2, c3, c4, c5, c6, c7]"
  shows "ucast (drop_bit 56 w) = c0" "ucast (drop_bit 48 w) = c1" "ucast (drop_bit 40 w) = c2"
    "ucast (drop_bit 32 w) = c3" "ucast (drop_bit 24 w) = c4" "ucast (drop_bit 16 w) = c5"
    "ucast (drop_bit 8 w) = c6" "ucast w = c7"
  unfolding w_def beUint64.simps
  by (rule bit_word_eqI; auto simp add: bit_simps dest: bit_imp_le_length)+


lemma mask_fc: "list_all (\<lambda>b :: 8 word. (b AND 0xfe = 0xfc) = (b = 0xfc \<or> b = 0xfd)) (map of_nat [0..<256])"
  by code_simp

lemma unique_local: "(b :: 8 word) AND 0xfe = 0xfc \<longleftrightarrow> b = 0xfc \<or> b = 0xfd"
  using mask_fc byte_cases [of b] by (simp only: list_all_iff)

lemma mask_80: "list_all (\<lambda>b :: 8 word. (b AND 0xc0 = 0x80) = (0x80 \<le> b \<and> b \<le> 0xbf)) (map of_nat [0..<256])"
  by code_simp

lemma link_local_byte: "(b :: 8 word) AND 0xc0 = 0x80 \<longleftrightarrow> 0x80 \<le> b \<and> b \<le> 0xbf"
  using mask_80 byte_cases [of b] by (simp only: list_all_iff)

lemma top16_of_beUint64:
  fixes c0 c1 c2 c3 c4 c5 c6 c7 :: "8 word"
  shows "(ucast (drop_bit 48 (beUint64 [c0, c1, c2, c3, c4, c5, c6, c7])) :: 16 word) =
           push_bit 8 (ucast c0) OR ucast c1"
  unfolding beUint64.simps
  by (rule bit_word_eqI; auto simp add: bit_simps dest: bit_imp_le_length)

lemma pair_and:
  fixes x y m k :: "8 word"
  shows "(push_bit 8 (ucast x) OR ucast y :: 16 word) AND (push_bit 8 (ucast m) OR ucast k) =
           push_bit 8 (ucast (x AND m)) OR ucast (y AND k)"
  by (rule bit_word_eqI; auto simp add: bit_simps dest: bit_imp_le_length)

lemma pair_bytes:
  fixes x y :: "8 word"
  defines "w \<equiv> (push_bit 8 (ucast x) OR ucast y :: 16 word)"
  shows "ucast (drop_bit 8 w) = x" "ucast w = y"
  unfolding w_def
  by (rule bit_word_eqI; auto simp add: bit_simps dest: bit_imp_le_length)+

lemma pair_eq:
  fixes x y x' y' :: "8 word"
  shows "(push_bit 8 (ucast x) OR ucast y :: 16 word) = push_bit 8 (ucast x') OR ucast y'
           \<longleftrightarrow> x = x' \<and> y = y'"
proof
  assume e: "(push_bit 8 (ucast x) OR ucast y :: 16 word) = push_bit 8 (ucast x') OR ucast y'"
  have "(ucast (drop_bit 8 (push_bit 8 (ucast x) OR ucast y :: 16 word)) :: 8 word) =
          ucast (drop_bit 8 (push_bit 8 (ucast x') OR ucast y' :: 16 word))"
    and "(ucast (push_bit 8 (ucast x) OR ucast y :: 16 word) :: 8 word) =
          ucast (push_bit 8 (ucast x') OR ucast y' :: 16 word)"
    by (simp_all only: e)
  then show "x = x' \<and> y = y'"
    by (simp only: pair_bytes)
qed simp

lemma beUint64_eq:
  fixes c0 c1 c2 c3 c4 c5 c6 c7 d0 d1 d2 d3 d4 d5 d6 d7 :: "8 word"
  shows "beUint64 [c0, c1, c2, c3, c4, c5, c6, c7] = beUint64 [d0, d1, d2, d3, d4, d5, d6, d7]
           \<longleftrightarrow> c0 = d0 \<and> c1 = d1 \<and> c2 = d2 \<and> c3 = d3 \<and> c4 = d4 \<and> c5 = d5 \<and> c6 = d6 \<and> c7 = d7"
proof
  let ?l = "beUint64 [c0, c1, c2, c3, c4, c5, c6, c7]"
  let ?r = "beUint64 [d0, d1, d2, d3, d4, d5, d6, d7]"
  assume e: "?l = ?r"
  have "(ucast (drop_bit 56 ?l) :: 8 word) = ucast (drop_bit 56 ?r)"
    "(ucast (drop_bit 48 ?l) :: 8 word) = ucast (drop_bit 48 ?r)"
    "(ucast (drop_bit 40 ?l) :: 8 word) = ucast (drop_bit 40 ?r)"
    "(ucast (drop_bit 32 ?l) :: 8 word) = ucast (drop_bit 32 ?r)"
    "(ucast (drop_bit 24 ?l) :: 8 word) = ucast (drop_bit 24 ?r)"
    "(ucast (drop_bit 16 ?l) :: 8 word) = ucast (drop_bit 16 ?r)"
    "(ucast (drop_bit 8 ?l) :: 8 word) = ucast (drop_bit 8 ?r)"
    "(ucast ?l :: 8 word) = ucast ?r"
    by (simp_all only: e)
  then show "c0 = d0 \<and> c1 = d1 \<and> c2 = d2 \<and> c3 = d3 \<and> c4 = d4 \<and> c5 = d5 \<and> c6 = d6 \<and> c7 = d7"
    by (simp only: bytes_of_beUint64)
qed simp


lemma Is4In6_of_AddrFrom4: "zn \<noteq> z0 \<Longrightarrow> zn \<noteq> z4 \<Longrightarrow> Is4In6 ((AddrFrom4 a b c d)\<lparr>z := zn\<rparr>)"
  apply (simp add: Is4In6_def Is6_def AddrFrom4_def)
  apply (rule bit_word_eqI; auto simp add: bit_simps dest: bit_imp_le_length)
  done

lemma beUint64_zero: "beUint64 [0, 0, 0, 0, 0, 0, 0, 0] = 0"
  by simp

lemma beUint64_one: "beUint64 [0, 0, 0, 0, 0, 0, 0, 1] = 1"
  by simp

lemma upper_bytes:
  fixes c0 c1 c2 c3 c4 c5 c6 c7 :: "8 word"
  assumes "drop_bit 32 (beUint64 [c0, c1, c2, c3, c4, c5, c6, c7]) = 0xffff"
  shows "c0 = 0 \<and> c1 = 0 \<and> c2 = 0xff \<and> c3 = 0xff"
proof -
  let ?w = "beUint64 [c0, c1, c2, c3, c4, c5, c6, c7]"
  have "ucast (drop_bit 24 (drop_bit 32 ?w)) = c0" "ucast (drop_bit 16 (drop_bit 32 ?w)) = c1"
    "ucast (drop_bit 8 (drop_bit 32 ?w)) = c2" "ucast (drop_bit 32 ?w) = c3"
    by (simp_all only: drop_bit_drop_bit bytes_of_beUint64 arith_simps)
  then have "ucast (drop_bit 24 (0xffff :: 64 word)) = c0"
    "ucast (drop_bit 16 (0xffff :: 64 word)) = c1"
    "ucast (drop_bit 8 (0xffff :: 64 word)) = c2" "ucast (0xffff :: 64 word) = c3"
    unfolding assms by this+
  then show ?thesis
    by auto
qed


lemma mask_ff: "list_all (\<lambda>b :: 8 word. b AND 0xff = b) (map of_nat [0..<256])"
  by code_simp

lemma all_ones_byte: "(b :: 8 word) AND 0xff = b"
  using mask_ff byte_cases [of b] by (simp only: list_all_iff)

lemma parts_AddrFrom16:
  "addr ((AddrFrom16 [b0, b1, b2, b3, b4, b5, b6, b7, b8, b9, b10, b11, b12, b13, b14, b15])\<lparr>z := zn\<rparr>) =
     \<lparr>hi = beUint64 [b0, b1, b2, b3, b4, b5, b6, b7],
      lo = beUint64 [b8, b9, b10, b11, b12, b13, b14, b15]\<rparr>"
  "z ((AddrFrom16 [b0, b1, b2, b3, b4, b5, b6, b7, b8, b9, b10, b11, b12, b13, b14, b15])\<lparr>z := zn\<rparr>) = zn"
  by (simp_all add: AddrFrom16_def del: beUint64.simps)

lemma Is4In6_AddrFrom16:
  assumes "zn \<noteq> z0" and "zn \<noteq> z4"
  shows "Is4In6 ((AddrFrom16 [b0, b1, b2, b3, b4, b5, b6, b7, b8, b9, b10, b11, b12, b13, b14, b15])\<lparr>z := zn\<rparr>)
     \<longleftrightarrow> [b0, b1, b2, b3, b4, b5, b6, b7, b8, b9, b10, b11] = [0, 0, 0, 0, 0, 0, 0, 0, 0, 0, 0xff, 0xff]"
    (is "Is4In6 ?A \<longleftrightarrow> ?mapped")
proof
  assume "Is4In6 ?A"
  then have h: "beUint64 [b0, b1, b2, b3, b4, b5, b6, b7] = 0"
    and l: "drop_bit 32 (beUint64 [b8, b9, b10, b11, b12, b13, b14, b15]) = 0xffff"
    by (simp_all add: Is4In6_def parts_AddrFrom16 del: beUint64.simps)
  from h have "beUint64 [b0, b1, b2, b3, b4, b5, b6, b7] = beUint64 [0, 0, 0, 0, 0, 0, 0, 0]"
    by (simp only: beUint64_zero)
  then have "b0 = 0 \<and> b1 = 0 \<and> b2 = 0 \<and> b3 = 0 \<and> b4 = 0 \<and> b5 = 0 \<and> b6 = 0 \<and> b7 = 0"
    by (simp only: beUint64_eq)
  with upper_bytes [OF l] show ?mapped by simp
next
  assume ?mapped
  then have "?A = (AddrFrom4 b12 b13 b14 b15)\<lparr>z := zn\<rparr>"
    by (simp add: AddrFrom16_mapped del: beUint64.simps)
  moreover from assms have "Is4In6 ((AddrFrom4 b12 b13 b14 b15)\<lparr>z := zn\<rparr>)"
    by (rule Is4In6_of_AddrFrom4)
  ultimately show "Is4In6 ?A"
    by (simp only:)
qed

lemma v6_AddrFrom16:
  "v6 ((AddrFrom16 [b0, b1, b2, b3, b4, b5, b6, b7, b8, b9, b10, b11, b12, b13, b14, b15])\<lparr>z := zn\<rparr>) 0 = b0"
  "v6u16 ((AddrFrom16 [b0, b1, b2, b3, b4, b5, b6, b7, b8, b9, b10, b11, b12, b13, b14, b15])\<lparr>z := zn\<rparr>) 0 =
     push_bit 8 (ucast b0) OR ucast b1"
  by (simp_all add: v6_def v6u16_def halves_def parts_AddrFrom16 bytes_of_beUint64 top16_of_beUint64
      del: beUint64.simps)

lemma v4_AddrFrom16:
  "v4 ((AddrFrom16 [b0, b1, b2, b3, b4, b5, b6, b7, b8, b9, b10, b11, b12, b13, b14, b15])\<lparr>z := zn\<rparr>) 0 = b12"
  "v4 ((AddrFrom16 [b0, b1, b2, b3, b4, b5, b6, b7, b8, b9, b10, b11, b12, b13, b14, b15])\<lparr>z := zn\<rparr>) (Suc 0) = b13"
  "v4 ((AddrFrom16 [b0, b1, b2, b3, b4, b5, b6, b7, b8, b9, b10, b11, b12, b13, b14, b15])\<lparr>z := zn\<rparr>) 2 = b14"
  by (simp_all add: v4_shift parts_AddrFrom16 bytes_of_beUint64 del: beUint64.simps)

lemma masks16:
  "(0xffc0 :: 16 word) = push_bit 8 (ucast (0xff :: 8 word)) OR ucast (0xc0 :: 8 word)"
  "(0xfe80 :: 16 word) = push_bit 8 (ucast (0xfe :: 8 word)) OR ucast (0x80 :: 8 word)"
  "(0xff0f :: 16 word) = push_bit 8 (ucast (0xff :: 8 word)) OR ucast (0x0f :: 8 word)"
  "(0xff02 :: 16 word) = push_bit 8 (ucast (0xff :: 8 word)) OR ucast (0x02 :: 8 word)"
  by simp_all

lemma link_local_pair:
  fixes b0 b1 :: "8 word"
  shows "(push_bit 8 (ucast b0) OR ucast b1 :: 16 word) AND 0xffc0 = 0xfe80
           \<longleftrightarrow> b0 = 0xfe \<and> 0x80 \<le> b1 \<and> b1 \<le> 0xbf"
    and "(push_bit 8 (ucast b0) OR ucast b1 :: 16 word) AND 0xff0f = 0xff02
           \<longleftrightarrow> b0 = 0xff \<and> b1 AND 0x0f = 2"
  by (simp_all only: masks16 pair_and pair_eq all_ones_byte link_local_byte)

lemma loopback_bytes:
  "beUint64 [b0, b1, b2, b3, b4, b5, b6, b7] = 0 \<and> beUint64 [b8, b9, b10, b11, b12, b13, b14, b15] = 1
     \<longleftrightarrow> [b0, b1, b2, b3, b4, b5, b6, b7, b8, b9, b10, b11, b12, b13, b14, b15]
           = [0, 0, 0, 0, 0, 0, 0, 0, 0, 0, 0, 0, 0, 0, 0, 1]"
proof -
  have "beUint64 [b0, b1, b2, b3, b4, b5, b6, b7] = 0
          \<longleftrightarrow> beUint64 [b0, b1, b2, b3, b4, b5, b6, b7] = beUint64 [0, 0, 0, 0, 0, 0, 0, 0]"
    and "beUint64 [b8, b9, b10, b11, b12, b13, b14, b15] = 1
          \<longleftrightarrow> beUint64 [b8, b9, b10, b11, b12, b13, b14, b15] = beUint64 [0, 0, 0, 0, 0, 0, 0, 1]"
    by (simp_all only: beUint64_zero beUint64_one)
  then show ?thesis
    by (simp only: beUint64_eq) simp
qed

lemma byte_part:
  fixes w :: "64 word"
  shows "bit (push_bit k (ucast (ucast (drop_bit k w) :: 8 word)) :: 64 word) n
           \<longleftrightarrow> k \<le> n \<and> n < k + 8 \<and> bit w n"
  by (auto simp add: bit_simps dest: bit_imp_le_length)

lemma byte_part0:
  fixes w :: "64 word"
  shows "bit (ucast (ucast w :: 8 word) :: 64 word) n \<longleftrightarrow> n < 8 \<and> bit w n"
  by (auto simp add: bit_simps dest: bit_imp_le_length)

lemma beUint64_of_bytes:
  fixes w :: "64 word"
  shows "beUint64 [ucast (drop_bit 56 w), ucast (drop_bit 48 w), ucast (drop_bit 40 w),
                   ucast (drop_bit 32 w), ucast (drop_bit 24 w), ucast (drop_bit 16 w),
                   ucast (drop_bit 8 w), ucast w] = w" (is "?l = w")
proof (rule bit_word_eqI)
  fix n assume "n < LENGTH(64)"
  then have n: "n < 64" by simp
  then show "bit ?l n \<longleftrightarrow> bit w n"
    by (simp only: beUint64.simps bit_or_iff byte_part byte_part0) arith
qed

text \<open>
  Every address is the zero address, or is made of four bytes by \<open>AddrFrom4\<close>, or is
  made of sixteen bytes by \<open>AddrFrom16\<close> and given a zone: the 128 bits of an address
  are its sixteen bytes, and an IPv4 address, whose upper 96 bits are those of the
  IPv4-mapped form, is made of its four bytes.
\<close>

lemma Addr_of_bytes:
  "(AddrFrom16
      [ucast (drop_bit 56 (hi (addr ip))), ucast (drop_bit 48 (hi (addr ip))),
       ucast (drop_bit 40 (hi (addr ip))), ucast (drop_bit 32 (hi (addr ip))),
       ucast (drop_bit 24 (hi (addr ip))), ucast (drop_bit 16 (hi (addr ip))),
       ucast (drop_bit 8 (hi (addr ip))), ucast (hi (addr ip)),
       ucast (drop_bit 56 (lo (addr ip))), ucast (drop_bit 48 (lo (addr ip))),
       ucast (drop_bit 40 (lo (addr ip))), ucast (drop_bit 32 (lo (addr ip))),
       ucast (drop_bit 24 (lo (addr ip))), ucast (drop_bit 16 (lo (addr ip))),
       ucast (drop_bit 8 (lo (addr ip))), ucast (lo (addr ip))])\<lparr>z := z ip\<rparr> = ip"
  by (simp add: AddrFrom16_def beUint64_of_bytes del: beUint64.simps)

lemma beUint64_mapped:
  "beUint64 [0, 0, 0xff, 0xff, a, b, c, d] =
     0xffff00000000 OR push_bit 24 (ucast a) OR push_bit 16 (ucast b)
       OR push_bit 8 (ucast c) OR ucast d"
  by simp (simp add: ac_simps)

lemma AddrFrom4_of_bytes:
  assumes "Is4 ip" and "hi (addr ip) = 0" and "drop_bit 32 (lo (addr ip)) = 0xffff"
  shows "AddrFrom4 (v4 ip 0) (v4 ip 1) (v4 ip 2) (v4 ip 3) = ip"
proof -
  let ?w = "lo (addr ip)"
  let ?bs = "[ucast (drop_bit 56 ?w), ucast (drop_bit 48 ?w), ucast (drop_bit 40 ?w),
              ucast (drop_bit 32 ?w), ucast (drop_bit 24 ?w), ucast (drop_bit 16 ?w),
              ucast (drop_bit 8 ?w), ucast ?w] :: 8 word list"
  let ?A = "AddrFrom4 (v4 ip 0) (v4 ip 1) (v4 ip 2) (v4 ip 3)"
  have eq: "beUint64 ?bs = ?w"
    by (rule beUint64_of_bytes)
  have "drop_bit 32 (beUint64 ?bs) = 0xffff"
    unfolding eq by (fact assms(3))
  then have u: "(ucast (drop_bit 56 ?w) :: 8 word) = 0 \<and> (ucast (drop_bit 48 ?w) :: 8 word) = 0
      \<and> (ucast (drop_bit 40 ?w) :: 8 word) = 0xff \<and> (ucast (drop_bit 32 ?w) :: 8 word) = 0xff"
    by (rule upper_bytes)
  have b: "v4 ip 0 = ucast (drop_bit 24 ?w)" "v4 ip 1 = ucast (drop_bit 16 ?w)"
    "v4 ip 2 = ucast (drop_bit 8 ?w)" "v4 ip 3 = ucast ?w"
    by (simp_all add: v4_def)
  have "beUint64 [0, 0, 0xff, 0xff, v4 ip 0, v4 ip 1, v4 ip 2, v4 ip 3] = beUint64 ?bs"
    by (simp only: u b)
  then have "beUint64 [0, 0, 0xff, 0xff, v4 ip 0, v4 ip 1, v4 ip 2, v4 ip 3] = ?w"
    by (simp only: eq)
  then have lo_eq: "lo (addr ?A) = lo (addr ip)"
    by (simp only: AddrFrom4_def Addr.simps uint128.simps beUint64_mapped)
  have "hi (addr ?A) = 0"
    by (simp only: AddrFrom4_def Addr.simps uint128.simps)
  with assms(2) have hi_eq: "hi (addr ?A) = hi (addr ip)"
    by (simp only:)
  have "z ?A = z4"
    by (simp only: AddrFrom4_def Addr.simps)
  with assms(1) have z_eq: "z ?A = z ip"
    by (simp only: Is4_def)
  from hi_eq lo_eq have "addr ?A = addr ip"
    by (rule uint128.equality) simp
  then show ?thesis
    using z_eq by (rule Addr.equality) simp
qed

lemma same_zone: "(AddrFrom16 bs)\<lparr>z := z6noz\<rparr> = AddrFrom16 bs"
  by (simp add: AddrFrom16_def del: beUint64.simps)

text \<open>
  Claim C2.  \<open>IPIsPrivate\<close> is a function to \<open>bool\<close> with no error case, true exactly
  of the addresses that are private, loopback, link-local unicast or link-local
  multicast, in both families.  It is false of the zero address.  Of the IPv4 address
  \<open>a.b.c.d\<close> it is true exactly in 10/8, 172.16/12 and 192.168/16 (private), 127/8
  (loopback), 169.254/16 (link-local unicast) and 224.0.0/24 (link-local multicast).
  Of the IPv6 address with the bytes \<open>b0 \<dots> b15\<close>, with or without a zone, it is true
  exactly in these cases: when the address is the IPv4-mapped form of an IPv4 address,
  if that IPv4 address is in one of the ranges above; otherwise in \<open>fc00::/7\<close>
  (private), at \<open>::1\<close> (loopback), in \<open>fe80::/10\<close> (link-local unicast) and at the
  multicast addresses of link-local scope, \<open>ff02::/16\<close> with any flags.  Of every other
  address, so of every public unicast address, it is false.
\<close>

theorem IPIsPrivate_ranges:
  "\<not> IPIsPrivate zero_Addr
   \<and> (IPIsPrivate (AddrFrom4 a b c d) \<longleftrightarrow>
        a = 10 \<or> (a = 172 \<and> 16 \<le> b \<and> b \<le> 31) \<or> (a = 192 \<and> b = 168)
        \<or> a = 127 \<or> (a = 169 \<and> b = 254) \<or> (a = 224 \<and> b = 0 \<and> c = 0))
   \<and> (zn \<noteq> z0 \<and> zn \<noteq> z4 \<longrightarrow>
        (IPIsPrivate
           ((AddrFrom16 [b0, b1, b2, b3, b4, b5, b6, b7, b8, b9, b10, b11, b12, b13, b14, b15])
              \<lparr>z := zn\<rparr>) \<longleftrightarrow>
         (if [b0, b1, b2, b3, b4, b5, b6, b7, b8, b9, b10, b11]
               = [0, 0, 0, 0, 0, 0, 0, 0, 0, 0, 0xff, 0xff]
          then b12 = 10 \<or> (b12 = 172 \<and> 16 \<le> b13 \<and> b13 \<le> 31) \<or> (b12 = 192 \<and> b13 = 168)
               \<or> b12 = 127 \<or> (b12 = 169 \<and> b13 = 254) \<or> (b12 = 224 \<and> b13 = 0 \<and> b14 = 0)
          else (b0 = 0xfc \<or> b0 = 0xfd)
               \<or> [b0, b1, b2, b3, b4, b5, b6, b7, b8, b9, b10, b11, b12, b13, b14, b15]
                    = [0, 0, 0, 0, 0, 0, 0, 0, 0, 0, 0, 0, 0, 0, 0, 1]
               \<or> (b0 = 0xfe \<and> 0x80 \<le> b1 \<and> b1 \<le> 0xbf)
               \<or> (b0 = 0xff \<and> b1 AND 0x0f = 2))))"
proof (intro conjI impI)
  show "\<not> IPIsPrivate zero_Addr"
    by (simp add: IPIsPrivate_def IsPrivate_def IsLoopback_def IsLinkLocalUnicast_def
        IsLinkLocalMulticast_def Is4_def Is6_def Is4In6_def zero_Addr_def)
  show "IPIsPrivate (AddrFrom4 a b c d) \<longleftrightarrow>
        a = 10 \<or> (a = 172 \<and> 16 \<le> b \<and> b \<le> 31) \<or> (a = 192 \<and> b = 168)
        \<or> a = 127 \<or> (a = 169 \<and> b = 254) \<or> (a = 224 \<and> b = 0 \<and> c = 0)"
    by (simp add: IPIsPrivate_def IsPrivate_def IsLoopback_def IsLinkLocalUnicast_def
        IsLinkLocalMulticast_def family_of_AddrFrom4 v4_AddrFrom4 Let_def private_172)
next
  let ?A = "(AddrFrom16 [b0, b1, b2, b3, b4, b5, b6, b7, b8, b9, b10, b11, b12, b13, b14, b15])\<lparr>z := zn\<rparr>"
  let ?mapped = "[b0, b1, b2, b3, b4, b5, b6, b7, b8, b9, b10, b11]
               = [0, 0, 0, 0, 0, 0, 0, 0, 0, 0, 0xff, 0xff]"
  assume zone: "zn \<noteq> z0 \<and> zn \<noteq> z4"
  then have six: "Is6 ?A" "\<not> Is4 ?A"
    by (simp_all add: Is6_def Is4_def parts_AddrFrom16)
  from zone have zones: "zn \<noteq> z0" "zn \<noteq> z4"
    by simp_all
  then have mapped: "Is4In6 ?A \<longleftrightarrow> ?mapped"
    by (rule Is4In6_AddrFrom16)
  show "IPIsPrivate ?A \<longleftrightarrow>
         (if ?mapped
          then b12 = 10 \<or> (b12 = 172 \<and> 16 \<le> b13 \<and> b13 \<le> 31) \<or> (b12 = 192 \<and> b13 = 168)
               \<or> b12 = 127 \<or> (b12 = 169 \<and> b13 = 254) \<or> (b12 = 224 \<and> b13 = 0 \<and> b14 = 0)
          else (b0 = 0xfc \<or> b0 = 0xfd)
               \<or> [b0, b1, b2, b3, b4, b5, b6, b7, b8, b9, b10, b11, b12, b13, b14, b15]
                    = [0, 0, 0, 0, 0, 0, 0, 0, 0, 0, 0, 0, 0, 0, 0, 1]
               \<or> (b0 = 0xfe \<and> 0x80 \<le> b1 \<and> b1 \<le> 0xbf)
               \<or> (b0 = 0xff \<and> b1 AND 0x0f = 2))"
  proof (cases ?mapped)
    case True
    with mapped have m: "Is4In6 ?A" by blast
    let ?U = "(AddrFrom16 [b0, b1, b2, b3, b4, b5, b6, b7, b8, b9, b10, b11, b12, b13, b14, b15])\<lparr>z := z4\<rparr>"
    from m have u: "Unmap ?A = ?U"
      by (simp add: Unmap_def del: beUint64.simps)
    have "Is4 ?U" by (simp add: Is4_def)
    then have r: "IPIsPrivate ?A \<longleftrightarrow>
        b12 = 10 \<or> (b12 = 172 \<and> 16 \<le> b13 \<and> b13 \<le> 31) \<or> (b12 = 192 \<and> b13 = 168)
        \<or> b12 = 127 \<or> (b12 = 169 \<and> b13 = 254) \<or> (b12 = 224 \<and> b13 = 0 \<and> b14 = 0)"
      unfolding IPIsPrivate_def IsPrivate_def IsLoopback_def IsLinkLocalUnicast_def
        IsLinkLocalMulticast_def Let_def
      by (simp only: m u if_True v4_AddrFrom16 private_172 One_nat_def disj_assoc)
    show ?thesis unfolding if_P [OF True] by (fact r)
  next
    case False
    with mapped have m: "\<not> Is4In6 ?A" by blast
    have r: "IPIsPrivate ?A \<longleftrightarrow>
        (b0 = 0xfc \<or> b0 = 0xfd)
        \<or> [b0, b1, b2, b3, b4, b5, b6, b7, b8, b9, b10, b11, b12, b13, b14, b15]
             = [0, 0, 0, 0, 0, 0, 0, 0, 0, 0, 0, 0, 0, 0, 0, 1]
        \<or> (b0 = 0xfe \<and> 0x80 \<le> b1 \<and> b1 \<le> 0xbf)
        \<or> (b0 = 0xff \<and> b1 AND 0x0f = 2)"
      unfolding IPIsPrivate_def IsPrivate_def IsLoopback_def IsLinkLocalUnicast_def
        IsLinkLocalMulticast_def Let_def
      by (simp only: m six if_False if_True v6_AddrFrom16 unique_local link_local_pair
          parts_AddrFrom16 uint128.simps loopback_bytes disj_assoc)
    show ?thesis unfolding if_not_P [OF False] by (fact r)
  qed
qed

theorem IPIsPrivate_ranges_witness:
  "z6noz \<noteq> z0 \<and> z6noz \<noteq> z4
   \<and> IPIsPrivate (AddrFrom4 192 168 1 5) \<and> \<not> IPIsPrivate (AddrFrom4 8 8 8 8)
   \<and> IPIsPrivate (AddrFrom4 172 31 255 255) \<and> \<not> IPIsPrivate (AddrFrom4 172 32 0 1)
   \<and> IPIsPrivate (AddrFrom16 [0xfd, 0, 0, 0, 0, 0, 0, 0, 0, 0, 0, 0, 0, 0, 0, 1])
   \<and> IPIsPrivate (AddrFrom16 [0, 0, 0, 0, 0, 0, 0, 0, 0, 0, 0, 0, 0, 0, 0, 1])
   \<and> IPIsPrivate (AddrFrom16 [0xfe, 0x80, 0, 0, 0, 0, 0, 0, 0, 0, 0, 0, 0, 0, 0, 1])
   \<and> IPIsPrivate (AddrFrom16 [0xff, 0x02, 0, 0, 0, 0, 0, 0, 0, 0, 0, 0, 0, 0, 0, 1])
   \<and> IPIsPrivate (AddrFrom16 [0, 0, 0, 0, 0, 0, 0, 0, 0, 0, 0xff, 0xff, 10, 0, 0, 1])
   \<and> \<not> IPIsPrivate (AddrFrom16 [0, 0, 0, 0, 0, 0, 0, 0, 0, 0, 0xff, 0xff, 8, 8, 8, 8])
   \<and> \<not> IPIsPrivate (AddrFrom16 [0x20, 0x01, 0x48, 0x60, 0x48, 0x60, 0, 0, 0, 0, 0, 0, 0, 0, 0x88, 0x88])"
proof -
  have zones: "z6noz \<noteq> z0 \<and> z6noz \<noteq> z4"
    by simp
  from IPIsPrivate_ranges [of 192 168 1 5 z6noz "0xfd" 0 0 0 0 0 0 0 0 0 0 0 0 0 0 1]
  have c1: "IPIsPrivate (AddrFrom4 192 168 1 5)"
    and c2: "IPIsPrivate (AddrFrom16 [0xfd, 0, 0, 0, 0, 0, 0, 0, 0, 0, 0, 0, 0, 0, 0, 1])"
    by (simp_all add: same_zone)
  from IPIsPrivate_ranges [of 8 8 8 8 z6noz 0 0 0 0 0 0 0 0 0 0 0 0 0 0 0 1]
  have c3: "\<not> IPIsPrivate (AddrFrom4 8 8 8 8)"
    and c4: "IPIsPrivate (AddrFrom16 [0, 0, 0, 0, 0, 0, 0, 0, 0, 0, 0, 0, 0, 0, 0, 1])"
    by (simp_all add: same_zone)
  from IPIsPrivate_ranges [of 172 31 255 255 z6noz "0xfe" "0x80" 0 0 0 0 0 0 0 0 0 0 0 0 0 1]
  have c5: "IPIsPrivate (AddrFrom4 172 31 255 255)"
    and c6: "IPIsPrivate (AddrFrom16 [0xfe, 0x80, 0, 0, 0, 0, 0, 0, 0, 0, 0, 0, 0, 0, 0, 1])"
    by (simp_all add: same_zone)
  from IPIsPrivate_ranges [of 172 32 0 1 z6noz "0xff" "0x02" 0 0 0 0 0 0 0 0 0 0 0 0 0 1]
  have c7: "\<not> IPIsPrivate (AddrFrom4 172 32 0 1)"
    and c8: "IPIsPrivate (AddrFrom16 [0xff, 0x02, 0, 0, 0, 0, 0, 0, 0, 0, 0, 0, 0, 0, 0, 1])"
    by (simp_all add: same_zone)
  from IPIsPrivate_ranges [of 8 8 8 8 z6noz 0 0 0 0 0 0 0 0 0 0 "0xff" "0xff" 10 0 0 1]
  have c9: "IPIsPrivate (AddrFrom16 [0, 0, 0, 0, 0, 0, 0, 0, 0, 0, 0xff, 0xff, 10, 0, 0, 1])"
    by (simp add: same_zone)
  from IPIsPrivate_ranges [of 8 8 8 8 z6noz 0 0 0 0 0 0 0 0 0 0 "0xff" "0xff" 8 8 8 8]
  have c10: "\<not> IPIsPrivate (AddrFrom16 [0, 0, 0, 0, 0, 0, 0, 0, 0, 0, 0xff, 0xff, 8, 8, 8, 8])"
    by (simp add: same_zone)
  from IPIsPrivate_ranges [of 8 8 8 8 z6noz "0x20" "0x01" "0x48" "0x60" "0x48" "0x60" 0 0 0 0 0 0 0 0 "0x88" "0x88"]
  have c11: "\<not> IPIsPrivate (AddrFrom16 [0x20, 0x01, 0x48, 0x60, 0x48, 0x60, 0, 0, 0, 0, 0, 0, 0, 0, 0x88, 0x88])"
    by (simp add: same_zone)
  from zones c1 c2 c3 c4 c5 c6 c7 c8 c9 c10 c11 show ?thesis
    by (simp only: simp_thms)
qed

section \<open>Properties of \<open>assignedIP\<close>\<close>


lemma assignedIP_range_find:
  "assignedIP_range conv family ip addresses =
     (case find (\<lambda>a. ipMatchesFamily a family) (enumerated conv addresses) of
        Some m \<Rightarrow> (Unmap m, True)
      | None \<Rightarrow> (last (ip # enumerated conv addresses), False))"
  unfolding enumerated_def
  by (induction conv family ip addresses rule: assignedIP_range.induct)
     (simp_all add: Let_def split: option.splits)

lemma assignedIP_listed:
  assumes "InterfaceByName h n = Inr iface" and "Addrs h iface = Inr addresses"
  shows "assignedIP h conv n family =
     (case find (\<lambda>a. ipMatchesFamily a family) (enumerated conv addresses) of
        Some m \<Rightarrow> (Unmap m, None)
      | None \<Rightarrow>
          (last (zero_Addr # enumerated conv addresses),
           Some (fmt_Errorf ''%w: interface %s in %d addresses''
                   [ArgError errInterfaceIPNotFound, ArgString n,
                    ArgInt (int (length addresses))])))"
  using assms by (simp add: assignedIP_def assignedIP_range_find split: option.splits)

lemma assignedIP_success:
  assumes "assignedIP h conv n family = (ip, None)"
  shows "\<exists>m. ipMatchesFamily m family \<and> ip = Unmap m"
  using assms
  by (auto simp add: assignedIP_def assignedIP_range_find find_Some_iff
      split: sum.splits option.splits)

lemma errors_Is_same: "errors_Is err err"
  by (subst errors_Is.simps) simp

lemma errors_Is_notfound:
  "errors_Is (fmt_Errorf ''%w: interface %s in %d addresses''
                [ArgError errInterfaceIPNotFound, ArgString n, ArgInt k]) errInterfaceIPNotFound"
  by (subst errors_Is.simps) (simp add: errors_Is_same)

lemma errors_Is_lookup:
  "\<not> errors_Is (fmt_Errorf ''network interface %s not found: %w''
                   [ArgString n, ArgError (net_error err)]) errInterfaceIPNotFound"
  by (simp add: errors_Is.simps [of "fmt_Errorf f a" for f a]
      errors_Is.simps [of "net_error e" for e] errInterfaceIPNotFound_def)

lemma errors_Is_listing:
  "\<not> errors_Is (fmt_Errorf ''listing interface %s addresses: %w''
                   [ArgString n, ArgError (net_error err)]) errInterfaceIPNotFound"
  by (simp add: errors_Is.simps [of "fmt_Errorf f a" for f a]
      errors_Is.simps [of "net_error e" for e] errInterfaceIPNotFound_def)

text \<open>
  Claim C3.  A successful result of \<open>assignedIP\<close> is never an IPv4-mapped IPv6 address.
  When the interface exists, its addresses are listed and the first of them that matches
  family V4 is an IPv4-mapped address \<open>m\<close>, the call with family V4 succeeds with \<open>m\<close>
  unmapped: the same 128 bits marked as IPv4, and for the 16-byte form of \<open>a.b.c.d\<close>
  exactly the value \<open>AddrFrom4 a b c d\<close>.
\<close>

theorem assignedIP_unmaps:
  "(\<forall>ip. assignedIP h conv n family = (ip, None) \<longrightarrow> \<not> Is4In6 ip)
   \<and> (\<forall>iface addresses m.
         InterfaceByName h n = Inr iface \<and> Addrs h iface = Inr addresses
         \<and> find (\<lambda>a. ipMatchesFamily a FAMILY_V4) (enumerated conv addresses) = Some m
         \<and> Is4In6 m \<longrightarrow>
           assignedIP h conv n FAMILY_V4 = (m\<lparr>z := z4\<rparr>, None)
           \<and> Is4 (m\<lparr>z := z4\<rparr>) \<and> \<not> Is4In6 (m\<lparr>z := z4\<rparr>) \<and> addr (m\<lparr>z := z4\<rparr>) = addr m
           \<and> (\<forall>a b c d. m = AddrFrom16 [0, 0, 0, 0, 0, 0, 0, 0, 0, 0, 0xff, 0xff, a, b, c, d]
                 \<longrightarrow> m\<lparr>z := z4\<rparr> = AddrFrom4 a b c d))"
proof (intro conjI allI impI)
  fix ip assume "assignedIP h conv n family = (ip, None)"
  then show "\<not> Is4In6 ip"
    by (auto dest!: assignedIP_success simp add: not_Is4In6_Unmap)
next
  fix iface addresses m
  assume a: "InterfaceByName h n = Inr iface \<and> Addrs h iface = Inr addresses
         \<and> find (\<lambda>a. ipMatchesFamily a FAMILY_V4) (enumerated conv addresses) = Some m
         \<and> Is4In6 m"
  then show "assignedIP h conv n FAMILY_V4 = (m\<lparr>z := z4\<rparr>, None)"
    by (simp add: assignedIP_listed Unmap_Is4In6)
  show "Is4 (m\<lparr>z := z4\<rparr>)" by (simp add: Is4_def)
  show "\<not> Is4In6 (m\<lparr>z := z4\<rparr>)" by (simp add: Is4In6_def Is6_def)
  show "addr (m\<lparr>z := z4\<rparr>) = addr m" by simp
  fix a b c d assume "m = AddrFrom16 [0, 0, 0, 0, 0, 0, 0, 0, 0, 0, 0xff, 0xff, a, b, c, d]"
  then show "m\<lparr>z := z4\<rparr> = AddrFrom4 a b c d"
    by (simp add: AddrFrom16_mapped) (simp add: AddrFrom4_def)
qed

theorem assignedIP_unmaps_witness:
  "InterfaceByName example_host ''tun0'' = Inr 0
   \<and> Addrs example_host 0 = Inr [other_Addr ''unix'',
          IPNet [0xfe, 0x80, 0, 0, 0, 0, 0, 0, 0, 0, 0, 0, 0, 0, 0, 1] [],
          IPNet [0, 0, 0, 0, 0, 0, 0, 0, 0, 0, 0xff, 0xff, 10, 8, 0, 2] [],
          IPNet [10, 8, 0, 3] [255, 255, 255, 0]]
   \<and> Is4In6 (AddrFrom16 [0, 0, 0, 0, 0, 0, 0, 0, 0, 0, 0xff, 0xff, 10, 8, 0, 2])
   \<and> assignedIP example_host example_conversion ''tun0'' FAMILY_V4 = (AddrFrom4 10 8 0 2, None)
   \<and> \<not> Is4In6 (AddrFrom4 10 8 0 2)"
proof -
  let ?as = "[other_Addr ''unix'',
          IPNet [0xfe, 0x80, 0, 0, 0, 0, 0, 0, 0, 0, 0, 0, 0, 0, 0, 1] [],
          IPNet [0, 0, 0, 0, 0, 0, 0, 0, 0, 0, 0xff, 0xff, 10, 8, 0, 2] [],
          IPNet [10, 8, 0, 3] [255, 255, 255, 0]]"
  let ?m = "AddrFrom16 [0, 0, 0, 0, 0, 0, 0, 0, 0, 0, 0xff, 0xff, 10, 8, 0, 2]"
  have host: "InterfaceByName example_host ''tun0'' = Inr 0" "Addrs example_host 0 = Inr ?as"
    by (simp_all add: example_host_def)
  have first: "find (\<lambda>a. ipMatchesFamily a FAMILY_V4) (enumerated example_conversion ?as) = Some ?m"
    by (simp add: example_defs)
  have mapped: "Is4In6 ?m"
    by (simp add: example_defs)
  note step = assignedIP_unmaps [of example_host example_conversion "''tun0''" FAMILY_V4,
      THEN conjunct2, rule_format, OF conjI [OF host(1) conjI [OF host(2) conjI [OF first mapped]]]]
  from step have run: "assignedIP example_host example_conversion ''tun0'' FAMILY_V4 = (?m\<lparr>z := z4\<rparr>, None)"
    by (rule conjunct1)
  from step have "\<not> Is4In6 (?m\<lparr>z := z4\<rparr>)" and "?m\<lparr>z := z4\<rparr> = AddrFrom4 10 8 0 2"
    by blast+
  with run host mapped show ?thesis by simp
qed


lemma find_None_all: "find P xs = None \<longleftrightarrow> (\<forall>x\<in>set xs. \<not> P x)"
  by (induction xs) simp_all

lemma find_first: "(\<forall>a\<in>set pre. \<not> P a) \<Longrightarrow> P m \<Longrightarrow> find P (pre @ m # post) = Some m"
  by (induction pre) simp_all

text \<open>
  The addresses that \<open>ipMatchesFamily\<close> takes for the family and the spec's
  \<open>MatchesFamily\<close> does not are the IPv4-mapped addresses under family V6; for family
  V4 the two agree on every address.
\<close>

lemma spec_MatchesFamily_V4: "spec_MatchesFamily ip FAMILY_V4 \<longleftrightarrow> ipMatchesFamily ip FAMILY_V4"
  by (simp add: spec_MatchesFamily_def ipMatchesFamily_def FAMILY_V4_def FAMILY_V6_def)

lemma spec_MatchesFamily_V6:
  "spec_MatchesFamily ip FAMILY_V6 \<longleftrightarrow> ipMatchesFamily ip FAMILY_V6 \<and> \<not> Is4In6 ip"
  by (simp add: spec_MatchesFamily_def ipMatchesFamily_def FAMILY_V4_def FAMILY_V6_def)

text \<open>
  What the loop selects.  For an interface that exists and whose addresses were listed
  (the list may be empty): if \<open>m\<close> is the first address in enumeration order for which
  \<open>ipMatchesFamily\<close> holds, the call succeeds with \<open>m\<close> after \<open>Unmap\<close> (which is \<open>m\<close>
  itself unless \<open>m\<close> is IPv4-mapped); if \<open>ipMatchesFamily\<close> holds of no address, the
  call fails with the error that wraps \<open>errInterfaceIPNotFound\<close>.
\<close>

lemma assignedIP_first_ipMatchesFamily:
  assumes "InterfaceByName h n = Inr iface" and "Addrs h iface = Inr addresses"
  shows "(\<forall>pre m post.
            enumerated conv addresses = pre @ m # post
            \<and> (\<forall>a\<in>set pre. \<not> ipMatchesFamily a family) \<and> ipMatchesFamily m family \<longrightarrow>
              assignedIP h conv n family = (Unmap m, None) \<and> (\<not> Is4In6 m \<longrightarrow> Unmap m = m))
       \<and> ((\<forall>a\<in>set (enumerated conv addresses). \<not> ipMatchesFamily a family) \<longrightarrow>
              assignedIP h conv n family =
                (last (zero_Addr # enumerated conv addresses),
                 Some (fmt_Errorf ''%w: interface %s in %d addresses''
                         [ArgError errInterfaceIPNotFound, ArgString n,
                          ArgInt (int (length addresses))])))
       \<and> ((\<exists>ip e. assignedIP h conv n family = (ip, Some e) \<and> errors_Is e errInterfaceIPNotFound)
            \<longleftrightarrow> (\<forall>a\<in>set (enumerated conv addresses). \<not> ipMatchesFamily a family))
       \<and> ((\<exists>ip. assignedIP h conv n family = (ip, None))
            \<longleftrightarrow> (\<exists>a\<in>set (enumerated conv addresses). ipMatchesFamily a family))"
proof (intro conjI allI impI)
  fix pre m post
  assume "enumerated conv addresses = pre @ m # post
            \<and> (\<forall>a\<in>set pre. \<not> ipMatchesFamily a family) \<and> ipMatchesFamily m family"
  then have "find (\<lambda>a. ipMatchesFamily a family) (enumerated conv addresses) = Some m"
    by (simp add: find_first)
  then show "assignedIP h conv n family = (Unmap m, None)"
    using assms by (simp add: assignedIP_listed)
  assume "\<not> Is4In6 m"
  then show "Unmap m = m" by (rule Unmap_other)
next
  assume "\<forall>a\<in>set (enumerated conv addresses). \<not> ipMatchesFamily a family"
  then have "find (\<lambda>a. ipMatchesFamily a family) (enumerated conv addresses) = None"
    by (simp add: find_None_all)
  then show "assignedIP h conv n family =
                (last (zero_Addr # enumerated conv addresses),
                 Some (fmt_Errorf ''%w: interface %s in %d addresses''
                         [ArgError errInterfaceIPNotFound, ArgString n,
                          ArgInt (int (length addresses))]))"
    using assms by (simp add: assignedIP_listed)
next
  let ?found = "find (\<lambda>a. ipMatchesFamily a family) (enumerated conv addresses)"
  have run: "assignedIP h conv n family =
     (case ?found of
        Some m \<Rightarrow> (Unmap m, None)
      | None \<Rightarrow>
          (last (zero_Addr # enumerated conv addresses),
           Some (fmt_Errorf ''%w: interface %s in %d addresses''
                   [ArgError errInterfaceIPNotFound, ArgString n,
                    ArgInt (int (length addresses))])))"
    using assms by (rule assignedIP_listed)
  show "(\<exists>ip e. assignedIP h conv n family = (ip, Some e) \<and> errors_Is e errInterfaceIPNotFound)
            \<longleftrightarrow> (\<forall>a\<in>set (enumerated conv addresses). \<not> ipMatchesFamily a family)"
  proof (cases ?found)
    case None
    with run show ?thesis
      by (simp add: errors_Is_notfound find_None_all [symmetric])
  next
    case (Some m)
    with run show ?thesis
      by (simp add: find_None_all [symmetric])
  qed
  show "(\<exists>ip. assignedIP h conv n family = (ip, None))
            \<longleftrightarrow> (\<exists>a\<in>set (enumerated conv addresses). ipMatchesFamily a family)"
  proof (cases ?found)
    case None
    with run find_None_all [of "\<lambda>a. ipMatchesFamily a family" "enumerated conv addresses"]
    show ?thesis by simp
  next
    case (Some m)
    with run find_None_all [of "\<lambda>a. ipMatchesFamily a family" "enumerated conv addresses"]
    show ?thesis by simp
  qed
qed

text \<open>
  Whatever the conversion: when the first IPv6 address that the loop meets is
  IPv4-mapped, the call for family V6 succeeds with it, unmapped to an IPv4 address,
  although it does not match V6 per the spec's \<open>MatchesFamily\<close>.
\<close>

lemma assignedIP_V6_first_mapped:
  assumes "InterfaceByName h n = Inr iface" and "Addrs h iface = Inr addresses"
    and "enumerated conv addresses = pre @ m # post"
    and "\<forall>a\<in>set pre. \<not> Is6 a" and "Is4In6 m"
  shows "assignedIP h conv n FAMILY_V6 = (m\<lparr>z := z4\<rparr>, None)"
    and "Is4 (m\<lparr>z := z4\<rparr>)" and "\<not> spec_MatchesFamily m FAMILY_V6"
proof -
  from assms(5) have "Is6 m"
    by (simp add: Is4In6_def)
  with assms(3,4)
  have "find (\<lambda>a. ipMatchesFamily a FAMILY_V6) (enumerated conv addresses) = Some m"
    by (simp add: find_first ipMatchesFamily_V6)
  with assms(1,2,5) show "assignedIP h conv n FAMILY_V6 = (m\<lparr>z := z4\<rparr>, None)"
    by (simp add: assignedIP_listed Unmap_Is4In6)
  show "Is4 (m\<lparr>z := z4\<rparr>)"
    by (simp add: Is4_def)
  from assms(5) show "\<not> spec_MatchesFamily m FAMILY_V6"
    by (simp add: spec_MatchesFamily_V6)
qed

text \<open>
  Claim C4.  The spec has the call return, on success, exactly the first address in
  enumeration order whose family matches per \<open>MatchesFamily\<close>, and fail with
  \<open>NoMatchingAddress\<close> (\<open>errInterfaceIPNotFound\<close>) if and only if no enumerated address
  matches the requested family.  The code selects with \<open>ipMatchesFamily\<close>, which takes
  the IPv4-mapped addresses for V6 addresses as well (claim C1).  On the interface
  \<open>tun0\<close> of \<open>mapped_host\<close>, which exists and whose address list is enumerated, the
  only address is 10.8.0.2 in its 16-byte form: no enumerated address matches family V6
  per \<open>MatchesFamily\<close>, and yet the call for family V6 does not fail with
  \<open>errInterfaceIPNotFound\<close>; it succeeds, and what it returns is the IPv4 address
  10.8.0.2.
\<close>

theorem assignedIP_V6_selects_mapped:
  "InterfaceByName mapped_host ''tun0'' = Inr ()
   \<and> Addrs mapped_host () = Inr [IPNet [0, 0, 0, 0, 0, 0, 0, 0, 0, 0, 0xff, 0xff, 10, 8, 0, 2] []]
   \<and> enumerated example_conversion [IPNet [0, 0, 0, 0, 0, 0, 0, 0, 0, 0, 0xff, 0xff, 10, 8, 0, 2] []]
       = [AddrFrom16 [0, 0, 0, 0, 0, 0, 0, 0, 0, 0, 0xff, 0xff, 10, 8, 0, 2]]
   \<and> \<not> spec_MatchesFamily (AddrFrom16 [0, 0, 0, 0, 0, 0, 0, 0, 0, 0, 0xff, 0xff, 10, 8, 0, 2]) FAMILY_V6
   \<and> assignedIP mapped_host example_conversion ''tun0'' FAMILY_V6 = (AddrFrom4 10 8 0 2, None)
   \<and> Is4 (AddrFrom4 10 8 0 2) \<and> \<not> Is6 (AddrFrom4 10 8 0 2)"
  by (simp add: assignedIP_def mapped_host_def spec_MatchesFamily_def example_defs)

text \<open>
  Claim C5.  When the interface name does not exist on the host, that is when
  \<open>net.InterfaceByName\<close> fails, \<open>assignedIP\<close> returns the error "network interface ...
  not found", which wraps the error of the lookup, whatever the family and the
  conversion.  That error is not the error of a failed listing and does not wrap
  \<open>errInterfaceIPNotFound\<close>.  The address returned alongside it is the zero address,
  which is no valid address (neither \<open>Is4\<close> nor \<open>Is6\<close>) and which no successful call
  returns.
\<close>

theorem assignedIP_interface_not_found:
  "(\<forall>err. InterfaceByName h n = Inl err \<longrightarrow>
      assignedIP h conv n family =
        (zero_Addr,
         Some (fmt_Errorf ''network interface %s not found: %w''
                 [ArgString n, ArgError (net_error err)]))
      \<and> Unwrap (fmt_Errorf ''network interface %s not found: %w''
                   [ArgString n, ArgError (net_error err)]) = Some (net_error err)
      \<and> \<not> errors_Is (fmt_Errorf ''network interface %s not found: %w''
                         [ArgString n, ArgError (net_error err)]) errInterfaceIPNotFound
      \<and> (\<forall>n' err'. fmt_Errorf ''network interface %s not found: %w''
                        [ArgString n, ArgError (net_error err)]
                    \<noteq> fmt_Errorf ''listing interface %s addresses: %w''
                        [ArgString n', ArgError (net_error err')]))
   \<and> \<not> Is4 zero_Addr \<and> \<not> Is6 zero_Addr
   \<and> (\<forall>h' conv' n' family' ip.
         assignedIP (h' :: 'a host) conv' n' family' = (ip, None) \<longrightarrow> ip \<noteq> zero_Addr)"
proof (intro conjI allI impI)
  fix err assume "InterfaceByName h n = Inl err"
  then show "assignedIP h conv n family =
        (zero_Addr,
         Some (fmt_Errorf ''network interface %s not found: %w''
                 [ArgString n, ArgError (net_error err)]))"
    by (simp add: assignedIP_def)
  show "Unwrap (fmt_Errorf ''network interface %s not found: %w''
                   [ArgString n, ArgError (net_error err)]) = Some (net_error err)"
    by simp
  show "\<not> errors_Is (fmt_Errorf ''network interface %s not found: %w''
                         [ArgString n, ArgError (net_error err)]) errInterfaceIPNotFound"
    by (rule errors_Is_lookup)
  fix n' err'
  show "fmt_Errorf ''network interface %s not found: %w'' [ArgString n, ArgError (net_error err)]
          \<noteq> fmt_Errorf ''listing interface %s addresses: %w''
                [ArgString n', ArgError (net_error err')]"
    by simp
next
  show "\<not> Is4 zero_Addr" and "\<not> Is6 zero_Addr"
    by (simp_all add: Is4_def Is6_def zero_Addr_def)
next
  fix h' :: "'a host" and conv' n' family' ip
  assume "assignedIP h' conv' n' family' = (ip, None)"
  then obtain m where "ipMatchesFamily m family'" and "ip = Unmap m"
    by (auto dest: assignedIP_success)
  then have "z ip \<noteq> z0"
    by (auto dest: ipMatchesFamily_valid simp add: Unmap_def)
  then show "ip \<noteq> zero_Addr"
    by (auto simp add: zero_Addr_def)
qed

theorem assignedIP_interface_not_found_witness:
  "InterfaceByName example_host ''tun1'' = Inl ''no such network interface''
   \<and> assignedIP example_host example_conversion ''tun1'' FAMILY_V4 =
       (zero_Addr,
        Some (fmt_Errorf ''network interface %s not found: %w''
                [ArgString ''tun1'', ArgError (net_error ''no such network interface'')]))"
proof -
  have missing: "InterfaceByName example_host ''tun1'' = Inl ''no such network interface''"
    by (simp add: example_host_def)
  from assignedIP_interface_not_found
         [of example_host "''tun1''" example_conversion FAMILY_V4,
          THEN conjunct1, rule_format, OF missing, THEN conjunct1]
  have first: "assignedIP example_host example_conversion ''tun1'' FAMILY_V4 =
       (zero_Addr,
        Some (fmt_Errorf ''network interface %s not found: %w''
                [ArgString ''tun1'', ArgError (net_error ''no such network interface'')]))" .
  from missing first show ?thesis by simp
qed

text \<open>
  The other two errors, of an interface that exists.  With the error of a failed
  listing the address is the zero address too.  With the error that wraps
  \<open>errInterfaceIPNotFound\<close> it is what the loop left in the named result \<open>ip\<close>, the last
  address converted: on the interface \<open>wg0\<close> of the example host, which has a
  link-local IPv6 address only, the call for family V4 returns that address with the
  error.
\<close>

lemma assignedIP_listing_failed:
  assumes "InterfaceByName h n = Inr iface" and "Addrs h iface = Inl err"
  shows "assignedIP h conv n family =
          (zero_Addr,
           Some (fmt_Errorf ''listing interface %s addresses: %w''
                   [ArgString n, ArgError (net_error err)]))"
  using assms by (simp add: assignedIP_def)

lemma assignedIP_not_found_keeps_last_address:
  "assignedIP example_host example_conversion ''wg0'' FAMILY_V4 =
     (AddrFrom16 [0xfe, 0x80, 0, 0, 0, 0, 0, 0, 0, 0, 0, 0, 0, 0, 0, 1],
      Some (fmt_Errorf ''%w: interface %s in %d addresses''
              [ArgError errInterfaceIPNotFound, ArgString ''wg0'', ArgInt 1]))
   \<and> AddrFrom16 [0xfe, 0x80, 0, 0, 0, 0, 0, 0, 0, 0, 0, 0, 0, 0, 0, 1] \<noteq> zero_Addr
   \<and> Is6 (AddrFrom16 [0xfe, 0x80, 0, 0, 0, 0, 0, 0, 0, 0, 0, 0, 0, 0, 0, 1])"
  by (simp add: assignedIP_def example_defs)




section \<open>Properties of the OpenVPN settings\<close>

subsection \<open>Copies\<close>

lemma CopyPointer_step:
  assumes "prefix h0 h" and "valid_ptr h0 p" and "CopyPointer h p = (q, h')"
  shows "prefix h0 h'" and "prefix h h'" and "copied_from h0 h' p q"
  using assms
  by (auto simp add: CopyPointer_def new_def copied_from_def valid_ptr_def prefix_def nth_append
      split: option.splits)

lemma copied_from_mono: "copied_from h0 h p q \<Longrightarrow> prefix h h' \<Longrightarrow> copied_from h0 h' p q"
  by (auto simp add: copied_from_def prefix_def nth_append split: option.splits)

lemma copied_from_load: "copied_from h0 h p q \<Longrightarrow> valid_ptr h0 p \<Longrightarrow> load h q = load h0 p"
  by (auto simp add: copied_from_def load_def valid_ptr_def split: option.splits)

lemma copied_from_fresh: "copied_from h0 h p q \<Longrightarrow> fresh_ptr h0 q"
  by (auto simp add: copied_from_def fresh_ptr_def split: option.splits)

lemma copied_from_valid: "copied_from h0 h p q \<Longrightarrow> valid_ptr h q"
  by (auto simp add: copied_from_def valid_ptr_def split: option.splits)

lemma prefix_load: "prefix h0 h \<Longrightarrow> valid_ptr h0 p \<Longrightarrow> load h p = load h0 p"
  by (auto simp add: load_def valid_ptr_def prefix_def nth_append split: option.splits)

lemma prefix_elems: "prefix h0 h \<Longrightarrow> valid_slice h0 s \<Longrightarrow> elems h s = elems h0 s"
  by (auto simp add: elems_def valid_slice_def prefix_def nth_append split: option.splits)

lemma CopySlice_step:
  assumes "prefix h0 h" and "valid_slice h0 s" and "CopySlice h s = (t, h')"
  shows "prefix h0 h'" and "prefix h h'" and "fresh_slice h0 t" and "valid_slice h' t"
    and "elems h' t = elems h0 s" and "(Data t = None) = (Data s = None)"
    and "\<And>h''. prefix h' h'' \<Longrightarrow> elems h'' t = elems h0 s"
  using assms
  by (auto simp add: CopySlice_def nil_slice_def fresh_slice_def valid_slice_def elems_def
      prefix_def nth_append split: option.splits)

lemma store_fresh:
  "prefix h0 h \<Longrightarrow> fresh_ptr h0 q \<Longrightarrow> store h q v = Some h' \<Longrightarrow> prefix h0 h'"
  by (auto simp add: store_def fresh_ptr_def prefix_def list_update_append split: option.splits if_splits)

lemma store_elem_fresh:
  "prefix h0 h \<Longrightarrow> fresh_slice h0 s \<Longrightarrow> store_elem h s k v = Some h' \<Longrightarrow> prefix h0 h'"
  by (auto simp add: store_elem_def fresh_slice_def prefix_def list_update_append split: option.splits if_splits)


lemma write_through_agree:
  assumes "agree M M1" and "fresh_OpenVPN M c" and "write_through c M1 w = Some M2"
  shows "agree M M2"
proof (cases w)
  case (Write_string f v)
  with assms(3) obtain cells where f: "f < length (string_pointers c)"
    and st: "store (strings M1) (string_pointers c ! f) v = Some cells"
    and M2: "M2 = M1\<lparr>strings := cells\<rparr>"
    by (auto split: if_splits)
  from assms(2) f have "fresh_ptr (strings M) (string_pointers c ! f)"
    by (simp add: fresh_OpenVPN_def list_all_length)
  with assms(1) st have "prefix (strings M) cells"
    by (auto simp add: agree_def intro: store_fresh)
  with assms(1) M2 show ?thesis by (simp add: agree_def)
next
  case (Write_MSSFix v)
  with assms show ?thesis
    by (auto simp add: agree_def fresh_OpenVPN_def intro: store_fresh)
next
  case (Write_Verbosity v)
  with assms show ?thesis
    by (auto simp add: agree_def fresh_OpenVPN_def intro: store_fresh)
next
  case (Write_Ciphers k v)
  with assms show ?thesis
    by (auto simp add: agree_def fresh_OpenVPN_def intro: store_elem_fresh)
next
  case (Write_Flags k v)
  with assms show ?thesis
    by (auto simp add: agree_def fresh_OpenVPN_def intro: store_elem_fresh)
qed

lemma writes_through_agree:
  "agree M M1 \<Longrightarrow> fresh_OpenVPN M c \<Longrightarrow> writes_through c M1 ws = Some M2 \<Longrightarrow> agree M M2"
proof (induction ws arbitrary: M1)
  case Nil
  then show ?case by simp
next
  case (Cons w ws)
  then obtain M' where "write_through c M1 w = Some M'" and "writes_through c M' ws = Some M2"
    by (auto split: option.splits)
  with Cons show ?case
    by (blast intro: write_through_agree)
qed

lemma agree_contents:
  assumes "agree M M'" and "valid_OpenVPN M ov"
  shows "contents M' ov = contents M ov"
proof -
  from assms have "map (load (strings M')) (string_pointers ov) = map (load (strings M)) (string_pointers ov)"
    by (auto simp add: agree_def valid_OpenVPN_def list_all_iff intro: prefix_load)
  with assms show ?thesis
    by (simp add: contents_def agree_def valid_OpenVPN_def prefix_load prefix_elems)
qed

lemma copy_result:
  assumes ok: "valid_OpenVPN M ov" and run: "copy M ov = (c, M')"
  shows "agree M M'" and "fresh_OpenVPN M c" and "contents M' c = contents M ov"
    and "valid_OpenVPN M' c"
proof -
  let ?h = "strings M"
  from ok have v: "valid_ptr ?h (User ov)" "valid_ptr ?h (Password ov)" "valid_ptr ?h (ConfFile ov)"
    "valid_ptr ?h (Auth ov)" "valid_ptr ?h (Cert ov)" "valid_ptr ?h (Key ov)"
    "valid_ptr ?h (EncryptedKey ov)" "valid_ptr ?h (KeyPassphrase ov)" "valid_ptr ?h (PIAEncPreset ov)"
    and vm: "valid_ptr (uint16s M) (MSSFix ov)" and vv: "valid_ptr (ints M) (Verbosity ov)"
    and vc: "valid_slice (arrays M) (Ciphers ov)" and vf: "valid_slice (arrays M) (Flags ov)"
    by (simp_all add: valid_OpenVPN_def string_pointers_def)
  obtain user s1 where c1: "CopyPointer ?h (User ov) = (user, s1)" by fastforce
  obtain password s2 where c2: "CopyPointer s1 (Password ov) = (password, s2)" by fastforce
  obtain confFile s3 where c3: "CopyPointer s2 (ConfFile ov) = (confFile, s3)" by fastforce
  obtain auth s4 where c4: "CopyPointer s3 (Auth ov) = (auth, s4)" by fastforce
  obtain cert s5 where c5: "CopyPointer s4 (Cert ov) = (cert, s5)" by fastforce
  obtain key s6 where c6: "CopyPointer s5 (Key ov) = (key, s6)" by fastforce
  obtain encryptedKey s7 where c7: "CopyPointer s6 (EncryptedKey ov) = (encryptedKey, s7)" by fastforce
  obtain keyPassphrase s8 where c8: "CopyPointer s7 (KeyPassphrase ov) = (keyPassphrase, s8)" by fastforce
  obtain piaEncPreset s9 where c9: "CopyPointer s8 (PIAEncPreset ov) = (piaEncPreset, s9)" by fastforce
  obtain mssFix u1 where cm: "CopyPointer (uint16s M) (MSSFix ov) = (mssFix, u1)" by fastforce
  obtain verbosity i1 where cv: "CopyPointer (ints M) (Verbosity ov) = (verbosity, i1)" by fastforce
  obtain ciphers a1 where cc: "CopySlice (arrays M) (Ciphers ov) = (ciphers, a1)" by fastforce
  obtain flags a2 where cf: "CopySlice a1 (Flags ov) = (flags, a2)" by fastforce
  from run have c: "c = \<lparr>Version = Version ov, User = user, Password = password, ConfFile = confFile,
           Ciphers = ciphers, Auth = auth, Cert = cert, Key = key,
           EncryptedKey = encryptedKey, KeyPassphrase = keyPassphrase,
           PIAEncPreset = piaEncPreset, MSSFix = mssFix, Interface = Interface ov,
           ProcessUser = ProcessUser ov, Verbosity = verbosity, Flags = flags\<rparr>"
    and M': "M' = \<lparr>strings = s9, uint16s = u1, ints = i1, arrays = a2\<rparr>"
    by (simp_all add: copy_def c1 c2 c3 c4 c5 c6 c7 c8 c9 cm cv cc cf)
  have p0: "prefix ?h ?h" by simp
  note k1 = CopyPointer_step [OF p0 v(1) c1]
  note k2 = CopyPointer_step [OF k1(1) v(2) c2]
  note k3 = CopyPointer_step [OF k2(1) v(3) c3]
  note k4 = CopyPointer_step [OF k3(1) v(4) c4]
  note k5 = CopyPointer_step [OF k4(1) v(5) c5]
  note k6 = CopyPointer_step [OF k5(1) v(6) c6]
  note k7 = CopyPointer_step [OF k6(1) v(7) c7]
  note k8 = CopyPointer_step [OF k7(1) v(8) c8]
  note k9 = CopyPointer_step [OF k8(1) v(9) c9]
  have p89: "prefix s8 s9" by (rule k9(2))
  have p79: "prefix s7 s9" using k8(2) p89 by (rule prefix_order.trans)
  have p69: "prefix s6 s9" using k7(2) p79 by (rule prefix_order.trans)
  have p59: "prefix s5 s9" using k6(2) p69 by (rule prefix_order.trans)
  have p49: "prefix s4 s9" using k5(2) p59 by (rule prefix_order.trans)
  have p39: "prefix s3 s9" using k4(2) p49 by (rule prefix_order.trans)
  have p29: "prefix s2 s9" using k3(2) p39 by (rule prefix_order.trans)
  have p19: "prefix s1 s9" using k2(2) p29 by (rule prefix_order.trans)
  note f = copied_from_mono [OF k1(3) p19] copied_from_mono [OF k2(3) p29]
    copied_from_mono [OF k3(3) p39] copied_from_mono [OF k4(3) p49]
    copied_from_mono [OF k5(3) p59] copied_from_mono [OF k6(3) p69]
    copied_from_mono [OF k7(3) p79] copied_from_mono [OF k8(3) p89] k9(3)
  have pu: "prefix (uint16s M) (uint16s M)" and pi: "prefix (ints M) (ints M)"
    and pa: "prefix (arrays M) (arrays M)"
    by simp_all
  note km = CopyPointer_step [OF pu vm cm]
  note kv = CopyPointer_step [OF pi vv cv]
  note kc = CopySlice_step [OF pa vc cc]
  note kf = CopySlice_step [OF kc(1) vf cf]
  show "agree M M'"
    using k9(1) km(1) kv(1) kf(1) by (simp add: agree_def M')
  show "fresh_OpenVPN M c"
    using f [THEN copied_from_fresh] km(3) [THEN copied_from_fresh] kv(3) [THEN copied_from_fresh]
      kc(3) kf(3)
    by (simp add: fresh_OpenVPN_def c string_pointers_def)
  show "valid_OpenVPN M' c"
    using f [THEN copied_from_valid] km(3) [THEN copied_from_valid] kv(3) [THEN copied_from_valid]
      kc(4) kf(4) kf(2)
    by (auto simp add: valid_OpenVPN_def c M' string_pointers_def valid_slice_def prefix_def nth_append
        split: option.splits)
  show "contents M' c = contents M ov"
    using f [THEN copied_from_load] v km(3) [THEN copied_from_load] kv(3) [THEN copied_from_load]
      vm vv kc(7) [OF kf(2)] kf(5) kc(6) kf(6)
    by (simp add: contents_def c M' string_pointers_def)
qed

text \<open>
  Claim C8.  For settings \<open>ov\<close> whose pointers and slices point to allocated memory,
  \<open>copy\<close> returns settings that hold, field by field, what \<open>ov\<close> holds: the same
  \<open>Version\<close>, \<open>Interface\<close> and \<open>ProcessUser\<close>, pointers that are nil where those of \<open>ov\<close> are
  and otherwise point to equal values, slices that are nil where those of \<open>ov\<close> are and
  otherwise have the same elements.  What \<open>ov\<close> holds is unchanged by the copying, and
  stays unchanged under any sequence of writes through the pointer and slice fields of
  the copy.
\<close>

theorem copy_independent:
  assumes "valid_OpenVPN M ov"
  shows "(case copy M ov of (c, M') \<Rightarrow>
            contents M' c = contents M ov
            \<and> contents M' ov = contents M ov
            \<and> valid_OpenVPN M' c
            \<and> (\<forall>ws M''. writes_through c M' ws = Some M'' \<longrightarrow> contents M'' ov = contents M ov))"
proof -
  obtain c M' where run: "copy M ov = (c, M')" by fastforce
  note r = copy_result [OF assms run]
  have "contents M'' ov = contents M ov" if "writes_through c M' ws = Some M''" for ws M''
    using writes_through_agree [OF r(1) r(2) that] assms by (rule agree_contents)
  with r assms show ?thesis
    by (simp add: run agree_contents)
qed

theorem copy_independent_witness:
  "valid_OpenVPN example_memory example_settings
   \<and> copy example_memory example_settings =
       (example_settings\<lparr>User := Some 2, Password := Some 3,
          Ciphers := \<lparr>Data = Some (1, 0), Len = 2, Cap = 2\<rparr>, MSSFix := Some 1,
          Verbosity := Some 1\<rparr>,
        \<lparr>strings = [''alice'', ''secret'', ''alice'', ''secret''], uint16s = [1400, 1400],
         ints = [3, 3],
         arrays = [[''aes-256-gcm'', ''aes-128-gcm''], [''aes-256-gcm'', ''aes-128-gcm'']]\<rparr>)
   \<and> writes_through
         (example_settings\<lparr>User := Some 2, Password := Some 3,
            Ciphers := \<lparr>Data = Some (1, 0), Len = 2, Cap = 2\<rparr>, MSSFix := Some 1,
            Verbosity := Some 1\<rparr>)
         \<lparr>strings = [''alice'', ''secret'', ''alice'', ''secret''], uint16s = [1400, 1400],
          ints = [3, 3],
          arrays = [[''aes-256-gcm'', ''aes-128-gcm''], [''aes-256-gcm'', ''aes-128-gcm'']]\<rparr>
         [Write_string 0 ''bob'', Write_Ciphers 1 ''none'', Write_Verbosity 6] =
       Some \<lparr>strings = [''alice'', ''secret'', ''bob'', ''secret''], uint16s = [1400, 1400],
             ints = [3, 6],
             arrays = [[''aes-256-gcm'', ''aes-128-gcm''], [''aes-256-gcm'', ''none'']]\<rparr>
   \<and> contents
         \<lparr>strings = [''alice'', ''secret'', ''bob'', ''secret''], uint16s = [1400, 1400],
          ints = [3, 6],
          arrays = [[''aes-256-gcm'', ''aes-128-gcm''], [''aes-256-gcm'', ''none'']]\<rparr>
         example_settings =
       contents example_memory example_settings"
proof -
  let ?c = "example_settings\<lparr>User := Some 2, Password := Some 3,
          Ciphers := \<lparr>Data = Some (1, 0), Len = 2, Cap = 2\<rparr>, MSSFix := Some 1,
          Verbosity := Some 1\<rparr>"
  let ?M' = "\<lparr>strings = [''alice'', ''secret'', ''alice'', ''secret''], uint16s = [1400, 1400],
         ints = [3, 3],
         arrays = [[''aes-256-gcm'', ''aes-128-gcm''], [''aes-256-gcm'', ''aes-128-gcm'']]\<rparr>"
  let ?M'' = "\<lparr>strings = [''alice'', ''secret'', ''bob'', ''secret''], uint16s = [1400, 1400],
          ints = [3, 6],
          arrays = [[''aes-256-gcm'', ''aes-128-gcm''], [''aes-256-gcm'', ''none'']]\<rparr>"
  have ok: "valid_OpenVPN example_memory example_settings"
    by (simp add: example_memory_def example_settings_def memory_defs)
  have run: "copy example_memory example_settings = (?c, ?M')"
    by (simp add: copy_def example_memory_def example_settings_def memory_defs)
  have w: "writes_through ?c ?M' [Write_string 0 ''bob'', Write_Ciphers 1 ''none'', Write_Verbosity 6] = Some ?M''"
    by (simp add: example_settings_def memory_defs)
  from copy_independent [OF ok] have
    "\<forall>ws M''. writes_through ?c ?M' ws = Some M'' \<longrightarrow>
       contents M'' example_settings = contents example_memory example_settings"
    by (simp add: run)
  with w have "contents ?M'' example_settings = contents example_memory example_settings"
    by blast
  with ok run w show ?thesis
    by (intro conjI)
qed

subsection \<open>Defaults\<close>

lemma DefaultPointer_set: "q \<noteq> None \<Longrightarrow> DefaultPointer h q d = (q, h)"
  by (simp add: DefaultPointer_def)

lemma DefaultPointer_step:
  assumes "DefaultPointer h p d = (q, h')"
  shows "q \<noteq> None" and "prefix h h'" and "p \<noteq> None \<Longrightarrow> q = p"
  using assms by (auto simp add: DefaultPointer_def new_def split: if_splits)

lemma DefaultString_twice: "DefaultString (DefaultString s d) d = DefaultString s d"
  by (simp add: DefaultString_def)

lemma DefaultString_set: "s \<noteq> [] \<Longrightarrow> DefaultString s d = s"
  by (simp add: DefaultString_def)

lemma setDefaults_result:
  assumes run: "setDefaults D M ov vpnProvider = (ov', M')"
  shows "setDefaults D M' ov' vpnProvider = (ov', M')"
    and "agree M M'"
    and "Version ov' = DefaultString (Version ov) (Openvpn25 D)"
    and "Interface ov' = DefaultString (Interface ov) ''tun0''"
    and "ProcessUser ov' = DefaultString (ProcessUser ov) ''root''"
    and "list_all2 (\<lambda>p q. p \<noteq> None \<longrightarrow> q = p) (string_pointers ov) (string_pointers ov')"
    and "MSSFix ov \<noteq> None \<longrightarrow> MSSFix ov' = MSSFix ov"
    and "Verbosity ov \<noteq> None \<longrightarrow> Verbosity ov' = Verbosity ov"
    and "Ciphers ov' = Ciphers ov" and "Flags ov' = Flags ov"
    and "list_all (\<lambda>p. p \<noteq> None) (string_pointers ov')"
    and "MSSFix ov' \<noteq> None" and "Verbosity ov' \<noteq> None"
proof -
  let ?pw = "if vpnProvider = Mullvad D then ''m'' else []"
  let ?preset = "if vpnProvider = PrivateInternetAccess D then Strong D else []"
  obtain user s1 where c1: "DefaultPointer (strings M) (User ov) [] = (user, s1)" by fastforce
  obtain password s2 where c2: "DefaultPointer s1 (Password ov) ?pw = (password, s2)" by fastforce
  obtain confFile s3 where c3: "DefaultPointer s2 (ConfFile ov) [] = (confFile, s3)" by fastforce
  obtain auth s4 where c4: "DefaultPointer s3 (Auth ov) [] = (auth, s4)" by fastforce
  obtain cert s5 where c5: "DefaultPointer s4 (Cert ov) [] = (cert, s5)" by fastforce
  obtain key s6 where c6: "DefaultPointer s5 (Key ov) [] = (key, s6)" by fastforce
  obtain encryptedKey s7 where c7: "DefaultPointer s6 (EncryptedKey ov) [] = (encryptedKey, s7)" by fastforce
  obtain keyPassphrase s8 where c8: "DefaultPointer s7 (KeyPassphrase ov) [] = (keyPassphrase, s8)" by fastforce
  obtain piaEncPreset s9 where c9: "DefaultPointer s8 (PIAEncPreset ov) ?preset = (piaEncPreset, s9)" by fastforce
  obtain mssFix u1 where cm: "DefaultPointer (uint16s M) (MSSFix ov) 0 = (mssFix, u1)" by fastforce
  obtain verbosity i1 where cv: "DefaultPointer (ints M) (Verbosity ov) 1 = (verbosity, i1)" by fastforce
  have c2': "(if vpnProvider = Mullvad D then DefaultPointer s1 (Password ov) ''m''
             else DefaultPointer s1 (Password ov) []) = (password, s2)"
    using c2 by (simp split: if_splits)
  from run have ov': "ov' = ov\<lparr>Version := DefaultString (Version ov) (Openvpn25 D), User := user,
             Password := password, ConfFile := confFile,
             Auth := auth, Cert := cert, Key := key, EncryptedKey := encryptedKey,
             KeyPassphrase := keyPassphrase, PIAEncPreset := piaEncPreset, MSSFix := mssFix,
             Interface := DefaultString (Interface ov) ''tun0'',
             ProcessUser := DefaultString (ProcessUser ov) ''root'', Verbosity := verbosity\<rparr>"
    and M': "M' = M\<lparr>strings := s9, uint16s := u1, ints := i1\<rparr>"
    by (simp_all add: setDefaults_def c1 c2' c3 c4 c5 c6 c7 c8 c9 cm cv)
  note k = DefaultPointer_step [OF c1] DefaultPointer_step [OF c2] DefaultPointer_step [OF c3]
    DefaultPointer_step [OF c4] DefaultPointer_step [OF c5] DefaultPointer_step [OF c6]
    DefaultPointer_step [OF c7] DefaultPointer_step [OF c8] DefaultPointer_step [OF c9]
    DefaultPointer_step [OF cm] DefaultPointer_step [OF cv]
  have set: "user \<noteq> None" "password \<noteq> None" "confFile \<noteq> None" "auth \<noteq> None" "cert \<noteq> None"
    "key \<noteq> None" "encryptedKey \<noteq> None" "keyPassphrase \<noteq> None" "piaEncPreset \<noteq> None"
    "mssFix \<noteq> None" "verbosity \<noteq> None"
    by (rule k)+
  show "setDefaults D M' ov' vpnProvider = (ov', M')"
    by (simp add: setDefaults_def ov' M' DefaultPointer_set set DefaultString_twice)
  have "prefix (strings M) s9"
    using k(2) k(5) k(8) k(11) k(14) k(17) k(20) k(23) k(26) by (meson prefix_order.trans)
  then show "agree M M'"
    using k(29) k(32) by (simp add: agree_def M')
  show "Version ov' = DefaultString (Version ov) (Openvpn25 D)"
    and "Interface ov' = DefaultString (Interface ov) ''tun0''"
    and "ProcessUser ov' = DefaultString (ProcessUser ov) ''root''"
    and "Ciphers ov' = Ciphers ov" and "Flags ov' = Flags ov"
    by (simp_all add: ov')
  show "MSSFix ov \<noteq> None \<longrightarrow> MSSFix ov' = MSSFix ov"
    and "Verbosity ov \<noteq> None \<longrightarrow> Verbosity ov' = Verbosity ov"
    using k(30) k(33) by (simp_all add: ov')
  show "list_all (\<lambda>p. p \<noteq> None) (string_pointers ov')"
    and "MSSFix ov' \<noteq> None" and "Verbosity ov' \<noteq> None"
    using set by (simp_all add: ov' string_pointers_def)
  show "list_all2 (\<lambda>p q. p \<noteq> None \<longrightarrow> q = p) (string_pointers ov) (string_pointers ov')"
    using k(3) k(6) k(9) k(12) k(15) k(18) k(21) k(24) k(27)
    by (simp add: ov' string_pointers_def)
qed

text \<open>
  Claim C9.  \<open>setDefaults\<close> is idempotent: applied again with the same provider to the
  settings and the memory it returned, it returns them as they are.  It preserves what
  is set: a non-empty \<open>Version\<close>, \<open>Interface\<close> or \<open>ProcessUser\<close> keeps its value, a non-nil
  pointer stays the same pointer, the slices \<open>Ciphers\<close> and \<open>Flags\<close> are not touched, and
  (for settings pointing to allocated memory) every field of the original holds what it
  held before.
\<close>

theorem setDefaults_idempotent:
  "(case setDefaults D M ov vpnProvider of (ov', M') \<Rightarrow>
      setDefaults D M' ov' vpnProvider = (ov', M')
      \<and> (Version ov \<noteq> [] \<longrightarrow> Version ov' = Version ov)
      \<and> (Interface ov \<noteq> [] \<longrightarrow> Interface ov' = Interface ov)
      \<and> (ProcessUser ov \<noteq> [] \<longrightarrow> ProcessUser ov' = ProcessUser ov)
      \<and> list_all2 (\<lambda>p q. p \<noteq> None \<longrightarrow> q = p) (string_pointers ov) (string_pointers ov')
      \<and> (MSSFix ov \<noteq> None \<longrightarrow> MSSFix ov' = MSSFix ov)
      \<and> (Verbosity ov \<noteq> None \<longrightarrow> Verbosity ov' = Verbosity ov)
      \<and> Ciphers ov' = Ciphers ov \<and> Flags ov' = Flags ov
      \<and> (valid_OpenVPN M ov \<longrightarrow> contents M' ov = contents M ov))"
proof -
  obtain ov' M' where run: "setDefaults D M ov vpnProvider = (ov', M')" by fastforce
  note r = setDefaults_result [OF run]
  from r(2) have "valid_OpenVPN M ov \<longrightarrow> contents M' ov = contents M ov"
    by (simp add: agree_contents)
  with r show ?thesis
    by (simp add: run DefaultString_set)
qed

theorem setDefaults_idempotent_witness:
  "setDefaults example_deps example_memory example_settings ''mullvad'' =
     (defaulted_settings, defaulted_memory)
   \<and> setDefaults example_deps defaulted_memory defaulted_settings ''mullvad'' =
     (defaulted_settings, defaulted_memory)
   \<and> ProcessUser example_settings = ''root'' \<and> ProcessUser defaulted_settings = ''root''
   \<and> User example_settings = Some 0 \<and> User defaulted_settings = Some 0
   \<and> valid_OpenVPN example_memory example_settings
   \<and> contents defaulted_memory example_settings = contents example_memory example_settings"
proof -
  have run: "setDefaults example_deps example_memory example_settings ''mullvad'' =
     (defaulted_settings, defaulted_memory)"
    by (simp add: setDefaults_def example_deps_def example_memory_def example_settings_def
        defaulted_settings_def defaulted_memory_def memory_defs)
  have ok: "valid_OpenVPN example_memory example_settings"
    by (simp add: example_memory_def example_settings_def memory_defs)
  from setDefaults_idempotent [where D = example_deps and M = example_memory
      and ov = example_settings and vpnProvider = "''mullvad''"] ok
  have "setDefaults example_deps defaulted_memory defaulted_settings ''mullvad'' =
          (defaulted_settings, defaulted_memory)"
    and "contents defaulted_memory example_settings = contents example_memory example_settings"
    by (simp_all add: run)
  moreover have "ProcessUser example_settings = ''root''" "ProcessUser defaulted_settings = ''root''"
    "User example_settings = Some 0" "User defaulted_settings = Some 0"
    by (simp_all add: example_settings_def defaulted_settings_def)
  ultimately show ?thesis
    using run ok by (intro conjI)
qed

subsection \<open>Validation of the verbosity\<close>

lemma and_then_Some_None: "and_then check rest = Some None \<longleftrightarrow> check = Some None \<and> rest = Some None"
  by (simp add: and_then_def split: option.splits)

lemma and_then_passed: "and_then (Some None) rest = rest"
  by (simp add: and_then_def)

text \<open>
  Claim C6.  Take settings that pass \<open>validate\<close> for some value of the verbosity, so
  that every other check passes.  Then for every value \<open>v\<close> stored as the verbosity,
  \<open>validate\<close> accepts the settings when \<open>0 \<le> v \<le> 6\<close>, and returns the error wrapping
  \<open>ErrOpenVPNVerbosityIsOutOfBounds\<close> when \<open>v < 0\<close> or \<open>v > 6\<close>; the format of that error
  reads "can only be between 0 and 5".
\<close>

theorem validate_verbosity:
  assumes "Verbosity ov = Some a" and "a < length (ints M)"
    and "validate D (M\<lparr>ints := (ints M)[a := v0]\<rparr>) ov vpnProvider = Some None"
  shows "validate D (M\<lparr>ints := (ints M)[a := v]\<rparr>) ov vpnProvider =
           (if v < 0 \<or> v > 6
            then Some (Some (fmt_Errorf ''%w: %d can only be between 0 and 5''
                               [ArgError (ErrOpenVPNVerbosityIsOutOfBounds D),
                                ArgPointer (Some a)]))
            else Some None)"
proof -
  from assms(3) have passed:
    "validate D (M\<lparr>ints := (ints M)[a := v]\<rparr>) ov vpnProvider =
       Option.bind (load ((ints M)[a := v]) (Verbosity ov)) (\<lambda>verbosity.
           if verbosity < 0 \<or> verbosity > 6
           then Some (Some (fmt_Errorf ''%w: %d can only be between 0 and 5''
                              [ArgError (ErrOpenVPNVerbosityIsOutOfBounds D),
                               ArgPointer (Verbosity ov)]))
           else Some None)"
    unfolding validate_def Let_def and_then_Some_None
    by (simp add: and_then_passed cong: if_cong)
  with assms(1,2) show ?thesis
    by (simp add: load_def)
qed

theorem validate_verbosity_witness:
  "Verbosity defaulted_settings = Some 0 \<and> 0 < length (ints defaulted_memory)
   \<and> validate example_deps (defaulted_memory\<lparr>ints := (ints defaulted_memory)[0 := 3]\<rparr>)
        defaulted_settings ''mullvad'' = Some None
   \<and> validate example_deps (defaulted_memory\<lparr>ints := (ints defaulted_memory)[0 := 0]\<rparr>)
        defaulted_settings ''mullvad'' = Some None
   \<and> validate example_deps (defaulted_memory\<lparr>ints := (ints defaulted_memory)[0 := 6]\<rparr>)
        defaulted_settings ''mullvad'' = Some None
   \<and> validate example_deps (defaulted_memory\<lparr>ints := (ints defaulted_memory)[0 := 7]\<rparr>)
        defaulted_settings ''mullvad'' =
       Some (Some (fmt_Errorf ''%w: %d can only be between 0 and 5''
                     [ArgError (errors_New ''verbosity value is out of bounds''),
                      ArgPointer (Some 0)]))
   \<and> validate example_deps (defaulted_memory\<lparr>ints := (ints defaulted_memory)[0 := - 1]\<rparr>)
        defaulted_settings ''mullvad'' =
       Some (Some (fmt_Errorf ''%w: %d can only be between 0 and 5''
                     [ArgError (errors_New ''verbosity value is out of bounds''),
                      ArgPointer (Some 0)]))"
proof -
  have v: "Verbosity defaulted_settings = Some 0" and a: "0 < length (ints defaulted_memory)"
    by (simp_all add: defaulted_settings_def defaulted_memory_def)
  have passes: "validate example_deps (defaulted_memory\<lparr>ints := (ints defaulted_memory)[0 := 3]\<rparr>)
        defaulted_settings ''mullvad'' = Some None"
    by (simp add: validate_def and_then_def example_deps_def defaulted_settings_def
        defaulted_memory_def load_def validateOpenVPNConfigFilepath_def
        validateOpenVPNClientCertificate_def validateOpenVPNClientKey_def
        validateOpenVPNEncryptedKey_def alphanumeric_def)
  note each = validate_verbosity [OF v a passes]
  have sentinel: "ErrOpenVPNVerbosityIsOutOfBounds example_deps = errors_New ''verbosity value is out of bounds''"
    by (simp add: example_deps_def)
  from each [of 0] each [of 6] each [of 7] each [of "- 1"] v a passes show ?thesis
    by (simp add: sentinel)
qed

section \<open>Properties of \<open>FetchServers\<close>\<close>

lemma mset_sort_insert: "mset (sort_insert lt x xs) = add_mset x (mset xs)"
  by (induction xs) simp_all

lemma mset_sort_Sort: "mset (sort_Sort lt xs) = mset xs"
  by (induction xs) (simp_all add: sort_Sort_def mset_sort_insert)

lemma set_sort_insert: "set (sort_insert lt x xs) = insert x (set xs)"
  by (induction xs) auto

lemma sorted_sort_insert:
  assumes "strict_weak_order lt" and "sorted_wrt (\<lambda>a b. \<not> lt b a) xs"
  shows "sorted_wrt (\<lambda>a b. \<not> lt b a) (sort_insert lt x xs)"
  using assms(2)
proof (induction xs)
  case Nil
  then show ?case by simp
next
  case (Cons y ys)
  from assms(1) have asym: "\<And>a b. lt a b \<Longrightarrow> \<not> lt b a"
    and neg: "\<And>a b c. \<not> lt a b \<Longrightarrow> \<not> lt b c \<Longrightarrow> \<not> lt a c"
    unfolding strict_weak_order_def by blast+
  show ?case
  proof (cases "lt y x")
    case True
    then have "\<not> lt x y" by (rule asym)
    with True Cons show ?thesis by (auto simp add: set_sort_insert)
  next
    case False
    have "\<not> lt b x" if "b \<in> set ys" for b
    proof -
      from Cons.prems that have "\<not> lt b y" by simp
      then show ?thesis using False by (rule neg)
    qed
    with False Cons.prems show ?thesis by simp
  qed
qed

lemma sorted_sort_Sort:
  "strict_weak_order lt \<Longrightarrow> sorted_wrt (\<lambda>a b. \<not> lt b a) (sort_Sort lt xs)"
  by (induction xs) (simp_all add: sort_Sort_def sorted_sort_insert)

text \<open>
  Claim C10.  If the resolver returns an error, \<open>FetchServers\<close> returns a nil slice and
  that error.  Otherwise it returns, with no error, the servers of the table adapted with
  the resolved IPs, rearranged; and when \<open>Less\<close> of \<open>SortableServers\<close> is a strict weak
  order they are sorted by it: no server is \<open>Less\<close> than one before it.
\<close>

theorem FetchServers_result:
  "(\<forall>hostToIPs warnings err.
      presolver_Resolve u ctx (hostsSlice u (getPossibleServers u)) minServers
        = (hostToIPs, warnings, Some err) \<longrightarrow>
      FetchServers u ctx minServers = (None, Some err))
   \<and> (\<forall>hostToIPs warnings.
        presolver_Resolve u ctx (hostsSlice u (getPossibleServers u)) minServers
          = (hostToIPs, warnings, None) \<longrightarrow>
        (\<exists>servers.
           FetchServers u ctx minServers = (Some servers, None)
           \<and> mset servers = mset (toSlice u (adaptWithIPs u (getPossibleServers u) hostToIPs))
           \<and> (strict_weak_order (Less u) \<longrightarrow> sorted_wrt (\<lambda>a b. \<not> Less u b a) servers)))"
  by (simp add: FetchServers_def mset_sort_Sort sorted_sort_Sort)

theorem FetchServers_result_witness:
  "presolver_Resolve example_updater False
       (hostsSlice example_updater (getPossibleServers example_updater)) 1
     = (0, [], Some (errors_New ''context canceled''))
   \<and> FetchServers example_updater False 1 = (None, Some (errors_New ''context canceled''))
   \<and> presolver_Resolve example_updater True
       (hostsSlice example_updater (getPossibleServers example_updater)) 1
     = (10, [], None)
   \<and> strict_weak_order (Less example_updater)
   \<and> FetchServers example_updater True 1 = (Some [11, 12, 13], None)
   \<and> sorted_wrt (\<lambda>a b. \<not> Less example_updater b a) [11, 12, 13]"
proof -
  have failing: "presolver_Resolve example_updater False
       (hostsSlice example_updater (getPossibleServers example_updater)) 1
     = (0, [], Some (errors_New ''context canceled''))"
    and resolving: "presolver_Resolve example_updater True
       (hostsSlice example_updater (getPossibleServers example_updater)) 1
     = (10, [], None)"
    by (simp_all add: example_updater_def)
  have order: "strict_weak_order (Less example_updater)"
    by (auto simp add: strict_weak_order_def example_updater_def)
  have run: "FetchServers example_updater True 1 = (Some [11, 12, 13], None)"
    by (simp add: FetchServers_def example_updater_def sort_Sort_def)
  from FetchServers_result [of example_updater False 1, THEN conjunct1, rule_format, OF failing]
  have failed: "FetchServers example_updater False 1 = (None, Some (errors_New ''context canceled''))" .
  from FetchServers_result [of example_updater True 1, THEN conjunct2, rule_format, OF resolving]
  obtain servers where "FetchServers example_updater True 1 = (Some servers, None)"
    and "strict_weak_order (Less example_updater) \<longrightarrow>
           sorted_wrt (\<lambda>a b. \<not> Less example_updater b a) servers"
    by blast
  with run order have "sorted_wrt (\<lambda>a b. \<not> Less example_updater b a) [11, 12, 13]"
    by simp
  with failing failed resolving order run show ?thesis
    by (intro conjI)
qed

end
